theory Spec2Isabelle
  imports Complex_Main "HOL-Library.AList"
begin

section \<open>Python values and exceptions\<close>

text \<open>
  Values found in a row of the external morphology table: \<open>None\<close>, a string or a
  number. Exceptions are values of \<open>py_error\<close>; a function that can raise returns
  \<open>py_error + 'a\<close> with \<open>Inl\<close> for the exception. Messages built with
  \<^verbatim>\<open>"... %0.3f" % ts\<close> are kept as the message text and the timestamp; the message
  of the morphology parser is kept as its three arguments.
\<close>

datatype py_value = PNone | PStr string | PNum real

datatype py_error =
    IndexError
  | ValueError
  | TypeError
  | KeyError string
  | KeyErrorTs string real
  | RuntimeErrorTs string real
  | ImportError string
  | IOError string
  | DatabaseError string
  | AttributeError string
  | MorphoException py_value int string

text \<open>A key of the morphology table: an int (Access table) or a string (JSON file).\<close>

datatype py_key = KInt int | KStr string

section \<open>Database records (synphys\_database.py)\<close>

record Cell =
  cell_id :: nat
  cell_ext_id :: nat
  lims_specimen_id :: "py_key option"
  transgenic_cell_class :: "string option option"
  morpho_cell_class :: "string option"
  cell_class_nonsynaptic :: "string option"

record Experiment =
  acq_timestamp :: real
  ext_id :: real
  storage_path :: string
  lims_cell_cluster_id :: "int option"
  cells :: "Cell list"

record Slice =
  slice_acq_timestamp :: real

text \<open>
  The tables a session queries: \<open>session.query(T).all()\<close> is the list of the rows of
  \<open>T\<close>, and \<open>.filter(c)\<close> keeps the rows that satisfy \<open>c\<close>, in the same order.
\<close>

record database =
  experiments :: "Experiment list"
  slices :: "Slice list"


text \<open>
  The loop of the backward-compatibility branch of \<open>experiment_from_timestamp\<close>:
  \<^verbatim>\<open>for expt in session.query(self.Experiment).all():
      if abs((expt.acq_timestamp - ts)) < 0.01: return expt\<close>
  \<open>None\<close> when the loop ends without returning.
\<close>

fun scan_experiments :: "real \<Rightarrow> Experiment list \<Rightarrow> Experiment option" where
  "scan_experiments ts [] = None"
| "scan_experiments ts (expt # rest) =
     (if \<bar>acq_timestamp expt - ts\<bar> < 1 / 100 then Some expt else scan_experiments ts rest)"

definition experiment_from_timestamp :: "database \<Rightarrow> real \<Rightarrow> py_error + Experiment" where
  "experiment_from_timestamp db ts =
     (let expts = filter (\<lambda>e. acq_timestamp e = ts) (experiments db) in
      if length expts = 0 then
        (case scan_experiments ts (experiments db) of
           Some expt \<Rightarrow> Inr expt
         | None \<Rightarrow> Inl (KeyErrorTs ''No experiment found for timestamp'' ts))
      else if length expts > 1 then
        Inl (RuntimeErrorTs ''Multiple experiments found for timestamp'' ts)
      else Inr (expts ! 0))"

section \<open>numpy floats and arrays\<close>

text \<open>
  A float64 is a finite real or one of the IEEE special values. Arithmetic on finite
  values is exact (rounding, overflow to infinity and the sign of zero are not modelled);
  what is modelled is how numpy treats the special values and division by zero, which
  returns \<open>nan\<close> or an infinity (with a RuntimeWarning) and does not raise.
\<close>

datatype npfloat = Fin real | PInf | NInf | NaN

fun np_neg :: "npfloat \<Rightarrow> npfloat" where
  "np_neg (Fin a) = Fin (- a)"
| "np_neg PInf = NInf"
| "np_neg NInf = PInf"
| "np_neg NaN = NaN"

fun np_add :: "npfloat \<Rightarrow> npfloat \<Rightarrow> npfloat" where
  "np_add (Fin a) (Fin b) = Fin (a + b)"
| "np_add NaN b = NaN"
| "np_add a NaN = NaN"
| "np_add PInf NInf = NaN"
| "np_add NInf PInf = NaN"
| "np_add PInf b = PInf"
| "np_add a PInf = PInf"
| "np_add NInf b = NInf"
| "np_add a NInf = NInf"

definition np_sub :: "npfloat \<Rightarrow> npfloat \<Rightarrow> npfloat" where
  "np_sub a b = np_add a (np_neg b)"

fun np_sign :: "npfloat \<Rightarrow> real" where
  "np_sign (Fin a) = sgn a"
| "np_sign PInf = 1"
| "np_sign NInf = - 1"
| "np_sign NaN = 0"

definition signed_inf :: "real \<Rightarrow> npfloat" where
  "signed_inf s = (if s = 0 then NaN else if 0 < s then PInf else NInf)"

fun np_mul :: "npfloat \<Rightarrow> npfloat \<Rightarrow> npfloat" where
  "np_mul (Fin a) (Fin b) = Fin (a * b)"
| "np_mul NaN b = NaN"
| "np_mul a NaN = NaN"
| "np_mul a b = signed_inf (np_sign a * np_sign b)"

fun np_div :: "npfloat \<Rightarrow> npfloat \<Rightarrow> npfloat" where
  "np_div (Fin a) (Fin b) = (if b = 0 then signed_inf (sgn a) else Fin (a / b))"
| "np_div NaN b = NaN"
| "np_div a NaN = NaN"
| "np_div (Fin a) b = Fin 0"
| "np_div a (Fin b) = signed_inf (np_sign a * (if b < 0 then - 1 else 1))"
| "np_div a b = NaN"

fun np_exp :: "npfloat \<Rightarrow> npfloat" where
  "np_exp (Fin a) = Fin (exp a)"
| "np_exp PInf = PInf"
| "np_exp NInf = Fin 0"
| "np_exp NaN = NaN"

fun np_sqrt :: "npfloat \<Rightarrow> npfloat" where
  "np_sqrt (Fin a) = (if a < 0 then NaN else Fin (sqrt a))"
| "np_sqrt PInf = PInf"
| "np_sqrt NInf = NaN"
| "np_sqrt NaN = NaN"

text \<open>\<open>x ** 2\<close>: the square.\<close>

definition np_pow2 :: "npfloat \<Rightarrow> npfloat" where
  "np_pow2 x = np_mul x x"

fun is_finite :: "npfloat \<Rightarrow> bool" where
  "is_finite (Fin a) = True"
| "is_finite x = False"

type_synonym ndarray = "npfloat list"

text \<open>\<open>a.sum()\<close> of a one-dimensional array.\<close>

definition np_sum :: "ndarray \<Rightarrow> npfloat" where
  "np_sum a = foldl np_add (Fin 0) a"

text \<open>
  An elementwise operation on two one-dimensional arrays: equal lengths pair up, an array
  of length one is broadcast, anything else raises ValueError (operands could not be
  broadcast together).
\<close>

definition np_bop ::
  "(npfloat \<Rightarrow> npfloat \<Rightarrow> npfloat) \<Rightarrow> ndarray \<Rightarrow> ndarray \<Rightarrow> py_error + ndarray" where
  "np_bop f a b =
     (if length a = length b then Inr (map2 f a b)
      else if length a = 1 then Inr (map (f (hd a)) b)
      else if length b = 1 then Inr (map (\<lambda>x. f x (hd b)) a)
      else Inl ValueError)"

text \<open>Sequencing of calls that can raise: the first exception ends the computation.\<close>

definition bind_err :: "'e + 'a \<Rightarrow> ('a \<Rightarrow> 'e + 'b) \<Rightarrow> 'e + 'b" where
  "bind_err m f = (case m of Inl e \<Rightarrow> Inl e | Inr a \<Rightarrow> f a)"

text \<open>Indexing: \<open>y[0]\<close>, \<open>y[-1]\<close> and \<open>x[i]\<close> raise IndexError out of range.\<close>

definition py_first :: "'a list \<Rightarrow> py_error + 'a" where
  "py_first xs = (case xs of [] \<Rightarrow> Inl IndexError | x # _ \<Rightarrow> Inr x)"

definition py_last :: "'a list \<Rightarrow> py_error + 'a" where
  "py_last xs = (if xs = [] then Inl IndexError else Inr (last xs))"

definition py_index :: "'a list \<Rightarrow> nat \<Rightarrow> py_error + 'a" where
  "py_index xs i = (if i < length xs then Inr (xs ! i) else Inl IndexError)"

section \<open>Curve fitting (exp\_fit\_test.py)\<close>

text \<open>The array \<open>np.exp(-t / tau)\<close>, which both functions compute.\<close>

definition exp_t_tau_of :: "npfloat \<Rightarrow> ndarray \<Rightarrow> ndarray" where
  "exp_t_tau_of tau t = map (\<lambda>ti. np_exp (np_div (np_neg ti) tau)) t"

text \<open>
  \<open>exp_fn\<close>: \<^verbatim>\<open>(yoffset, amp, tau) = params; return yoffset + amp * np.exp(-t / tau)\<close>.
  Unpacking a parameter vector that does not have three entries raises ValueError.
\<close>

definition exp_fn :: "npfloat list \<Rightarrow> ndarray \<Rightarrow> py_error + ndarray" where
  "exp_fn params t =
     (case params of
        [yoffset, amp, tau] \<Rightarrow>
          Inr (map (\<lambda>e. np_add yoffset (np_mul amp e)) (exp_t_tau_of tau t))
      | _ \<Rightarrow> Inl ValueError)"

text \<open>\<open>np.linalg.norm\<close> of a one-dimensional real array.\<close>

definition linalg_norm :: "ndarray \<Rightarrow> npfloat" where
  "linalg_norm a = np_sqrt (np_sum (map np_pow2 a))"

definition exp_err_fn :: "npfloat list \<Rightarrow> ndarray \<Rightarrow> ndarray \<Rightarrow> py_error + npfloat" where
  "exp_err_fn params t y =
     bind_err (exp_fn params t) (\<lambda>f.
     bind_err (np_bop np_sub y f) (\<lambda>residual.
     Inr (linalg_norm residual)))"

text \<open>
  \<open>exp_jac_fn\<close>, line by line. The expression \<open>yoff + amp * exp_t_tau - y\<close> occurs in
  \<open>norm\<close>, \<open>damp\<close> and \<open>dtau\<close> with the same value and is bound once as \<open>resid\<close>.
  Every quotient is \<open>np_div\<close>: there is no test of \<open>norm\<close> before dividing by it.
\<close>

definition exp_jac_fn :: "npfloat list \<Rightarrow> ndarray \<Rightarrow> ndarray \<Rightarrow> py_error + ndarray" where
  "exp_jac_fn params t y =
     (case params of
        [yoff, amp, tau] \<Rightarrow>
          (let N = Fin (real (length y));
               exp_t_tau = exp_t_tau_of tau t in
           bind_err (np_bop np_sub (map (\<lambda>e. np_add yoff (np_mul amp e)) exp_t_tau) y) (\<lambda>resid.
           let norm = np_sqrt (np_sum (map np_pow2 resid));
               dyoff = np_div (np_sub (np_add (np_mul N yoff) (np_sum (map (np_mul amp) exp_t_tau)))
                                      (np_sum y)) norm in
           bind_err (np_bop np_mul resid exp_t_tau) (\<lambda>re.
           let damp = np_div (np_sum re) norm in
           bind_err (np_bop np_mul (map (np_mul amp) resid) exp_t_tau) (\<lambda>are.
           bind_err (np_bop np_mul are t) (\<lambda>aret.
           let dtau = np_div (np_sum (map (\<lambda>x. np_div x (np_pow2 tau)) aret)) norm in
           Inr [dyoff, damp, dtau])))))
      | _ \<Rightarrow> Inl ValueError)"

text \<open>
  \<open>scipy.optimize.minimize\<close> is a library function: the fit methods take it as a
  parameter. It receives the objective, the initial guess \<open>x0\<close>, \<open>args\<close>, the optional
  gradient, the method name and the optional bounds, and returns an OptimizeResult (or
  raises).
\<close>

record optimize_result =
  res_x :: ndarray
  res_fun :: npfloat
  res_nfev :: nat
  res_success :: bool

type_synonym err_fn = "npfloat list \<Rightarrow> ndarray \<Rightarrow> ndarray \<Rightarrow> py_error + npfloat"
type_synonym jac_fn = "npfloat list \<Rightarrow> ndarray \<Rightarrow> ndarray \<Rightarrow> py_error + ndarray"
type_synonym minimizer =
  "err_fn \<Rightarrow> npfloat list \<Rightarrow> ndarray \<times> ndarray \<Rightarrow> jac_fn option \<Rightarrow> string option \<Rightarrow>
   (real \<times> real) list option \<Rightarrow> py_error + optimize_result"

record ExpFitMethod =
  exp_name :: string
  exp_method :: "string option"
  use_jac :: bool

record exp_fit_result =
  exp_fit :: optimize_result
  exp_yoffset :: npfloat
  exp_amp :: npfloat
  exp_tau :: npfloat
  exp_init_yoffset :: npfloat
  exp_init_amp :: npfloat
  exp_init_tau :: npfloat
  exp_err :: npfloat
  exp_nfev :: nat
  exp_success :: bool
  exp_fit_time :: real

text \<open>
  \<open>ExpFitMethod.fit\<close>. The two readings of \<open>time.time()\<close> are the pair \<open>clock\<close>.
\<close>

definition ExpFitMethod_fit ::
  "minimizer \<Rightarrow> real \<times> real \<Rightarrow> ExpFitMethod \<Rightarrow> ndarray \<Rightarrow> ndarray \<Rightarrow> py_error + exp_fit_result" where
  "ExpFitMethod_fit minimize clock self y t =
     (let start = fst clock in
      bind_err (py_last y) (\<lambda>yoff.
      bind_err (py_first y) (\<lambda>y0.
      let amp = np_sub y0 yoff in
      bind_err (py_last t) (\<lambda>tl.
      bind_err (py_first t) (\<lambda>t0.
      let tau = np_sub tl t0;
          init = [yoff, amp, tau];
          args = (t, y);
          jac = (if use_jac self then Some exp_jac_fn else None) in
      bind_err (minimize exp_err_fn init args jac (exp_method self) None) (\<lambda>fit.
      bind_err (py_index (res_x fit) 0) (\<lambda>x0.
      bind_err (py_index (res_x fit) 1) (\<lambda>x1.
      bind_err (py_index (res_x fit) 2) (\<lambda>x2.
      bind_err (py_index init 0) (\<lambda>i0.
      bind_err (py_index init 1) (\<lambda>i1.
      bind_err (py_index init 2) (\<lambda>i2.
      Inr \<lparr> exp_fit = fit,
            exp_yoffset = x0,
            exp_amp = x1,
            exp_tau = x2,
            exp_init_yoffset = i0,
            exp_init_amp = i1,
            exp_init_tau = i2,
            exp_err = res_fun fit,
            exp_nfev = res_nfev fit,
            exp_success = res_success fit,
            exp_fit_time = snd clock - start \<rparr>))))))))))))"

text \<open>
  The PSP model. \<open>Psp.psp_func\<close> belongs to the neuroanalysis library and is a
  parameter: it receives \<open>x\<close>, \<open>xoffset\<close>, \<open>yoffset\<close>, \<open>amp\<close>, \<open>rise_time\<close>,
  \<open>decay_tau\<close> and \<open>rise_power\<close>.
\<close>

type_synonym psp_func =
  "ndarray \<Rightarrow> npfloat \<Rightarrow> npfloat \<Rightarrow> npfloat \<Rightarrow> npfloat \<Rightarrow> npfloat \<Rightarrow> nat \<Rightarrow> py_error + ndarray"

definition psp_fn :: "psp_func \<Rightarrow> npfloat list \<Rightarrow> ndarray \<Rightarrow> py_error + ndarray" where
  "psp_fn psp params t =
     (case params of
        [yoffset, amp, rise_time, decay_tau] \<Rightarrow>
          psp t (Fin (1 / 100)) yoffset amp rise_time decay_tau 2
      | _ \<Rightarrow> Inl ValueError)"

definition psp_err_fn :: "psp_func \<Rightarrow> npfloat list \<Rightarrow> ndarray \<Rightarrow> ndarray \<Rightarrow> py_error + npfloat" where
  "psp_err_fn psp params t y =
     bind_err (psp_fn psp params t) (\<lambda>f.
     bind_err (np_bop np_sub y f) (\<lambda>residual.
     Inr (linalg_norm residual)))"

record PspFitMethod =
  psp_name :: string
  psp_method :: "string option"

record psp_fit_result =
  psp_fit :: optimize_result
  psp_yoffset :: npfloat
  psp_amp :: npfloat
  psp_rise_time :: npfloat
  psp_decay_tau :: npfloat
  psp_init_yoffset :: npfloat
  psp_init_amp :: npfloat
  psp_init_rise_time :: npfloat
  psp_init_decay_tau :: npfloat
  psp_err :: npfloat
  psp_nfev :: nat
  psp_success :: bool
  psp_fit_time :: real

definition psp_bounds :: "(real \<times> real) list" where
  "psp_bounds = [(- 1, 1), (- 1, 1), (1 / 10000, 20 / 1000), (1 / 1000, 200 / 1000)]"

definition PspFitMethod_fit ::
  "minimizer \<Rightarrow> psp_func \<Rightarrow> real \<times> real \<Rightarrow> PspFitMethod \<Rightarrow> ndarray \<Rightarrow> ndarray \<Rightarrow>
   py_error + psp_fit_result" where
  "PspFitMethod_fit minimize psp clock self y t =
     (let start = fst clock in
      bind_err (py_last y) (\<lambda>yoff.
      bind_err (py_first y) (\<lambda>y0.
      let amp = np_sub y0 yoff in
      bind_err (py_last t) (\<lambda>tl.
      bind_err (py_first t) (\<lambda>t0.
      let decay_tau = np_sub tl t0;
          rise_time = np_div decay_tau (Fin 3);
          init = [yoff, amp, rise_time, decay_tau];
          bounds = psp_bounds;
          args = (t, y) in
      bind_err (minimize (psp_err_fn psp) init args None (psp_method self) (Some bounds)) (\<lambda>fit.
      bind_err (py_index (res_x fit) 0) (\<lambda>x0.
      bind_err (py_index (res_x fit) 1) (\<lambda>x1.
      bind_err (py_index (res_x fit) 2) (\<lambda>x2.
      bind_err (py_index (res_x fit) 3) (\<lambda>x3.
      bind_err (py_index init 0) (\<lambda>i0.
      bind_err (py_index init 1) (\<lambda>i1.
      bind_err (py_index init 2) (\<lambda>i2.
      bind_err (py_index init 3) (\<lambda>i3.
      Inr \<lparr> psp_fit = fit,
            psp_yoffset = x0,
            psp_amp = x1,
            psp_rise_time = x2,
            psp_decay_tau = x3,
            psp_init_yoffset = i0,
            psp_init_amp = i1,
            psp_init_rise_time = i2,
            psp_init_decay_tau = i3,
            psp_err = res_fun fit,
            psp_nfev = res_nfev fit,
            psp_success = res_success fit,
            psp_fit_time = snd clock - start \<rparr>))))))))))))))"

section \<open>Morphology import (morphology.py)\<close>

datatype col_type = Str | Float | Enum "string list"

text \<open>\<open>col_names\<close>: the column of the external table, the name of the field it fills, its type.\<close>

definition col_names :: "(string \<times> string \<times> col_type) list" where
  "col_names =
     [(''Qual_Morpho_Type'', ''qual_morpho_type'', Str),
      (''dendrite_type'', ''dendrite_type'',
         Enum [''spiny'', ''aspiny'', ''sparsely spiny'', ''NEI'']),
      (''Apical_truncation_distance'', ''apical_trunc_distance'', Float),
      (''Axon_truncation_distance'', ''axon_trunc_distance'', Float),
      (''Axon origination'', ''axon_origin'',
         Enum [''soma'', ''dendrite'', ''unclear'', ''NEI'']),
      (''Axon_truncation'', ''axon_truncation'',
         Enum [''truncated'', ''borderline'', ''intact'', ''unclear'', ''NEI'']),
      (''Apical_truncation'', ''apical_truncation'',
         Enum [''truncated'', ''borderline'', ''intact'', ''unclear'', ''NEI''])]"

text \<open>
  A row of the external table is a dict from field name to value, and the table a dict
  from specimen id to row; both are association lists in iteration order.
\<close>

type_synonym morpho_row = "(string \<times> py_value) list"
type_synonym morpho_table = "(py_key \<times> morpho_row) list"

record Morphology =
  morph_cell_id :: nat
  pyramidal :: "bool option"
  cortical_layer :: "string option"
  morpho_db_hash :: "string option"
  annotations :: "(string \<times> py_value) list"

record config =
  morpho_address :: "string option"
  morpho_json_file :: "string option"

text \<open>
  What the module takes from outside the repository's own code: library functions
  (\<open>hashlib.md5(...).hexdigest()\<close>, \<open>repr\<close>, \<open>float\<close>, the import of pyodbc and what a
  connection fetches, \<open>json.load(open(...))\<close>, \<open>datetime.now()\<close>) and the collaborators
  (PipetteMetadata, lims, the experiment module's finished jobs, the session's query of
  Morphology joined with Cell for a specimen id).
\<close>

record externals =
  md5_hexdigest :: "string \<Rightarrow> string"
  repr :: "morpho_row \<Rightarrow> string"
  to_float :: "string \<Rightarrow> real option"
  import_pyodbc :: "string option"
  odbc_fetchall :: "string \<Rightarrow> py_error + (py_key \<times> morpho_row) list"
  json_load :: "string \<Rightarrow> py_error + morpho_table"
  pipette_metadata :: "string \<Rightarrow> nat \<Rightarrow> string option option"
  cell_layer :: "py_key \<Rightarrow> string option"
  cluster_cells :: "int \<Rightarrow> py_key option list option"
  finished_jobs :: "(real \<times> real \<times> bool) list"
  morphology_query :: "py_key \<Rightarrow> Morphology list"
  datetime_now :: real

text \<open>
  \<open>import_morpho_db\<close>: \<open>import pyodbc\<close> raises ImportError when the driver module is
  missing (\<open>import_pyodbc\<close> is then the message); connecting and fetching can raise;
  \<open>results[0]\<close> raises IndexError on an empty table; the dict comprehension keeps the last
  row of a specimen id.
\<close>

definition import_morpho_db :: "externals \<Rightarrow> string \<Rightarrow> py_error + morpho_table" where
  "import_morpho_db ext address =
     (case import_pyodbc ext of
        Some msg \<Rightarrow> Inl (ImportError msg)
      | None \<Rightarrow>
          bind_err (odbc_fetchall ext address) (\<lambda>results.
          if results = [] then Inl IndexError
          else Inr (foldl (\<lambda>m (k, row). AList.update k row m) [] results)))"

definition morpho_db :: "config \<Rightarrow> externals \<Rightarrow> py_error + morpho_table" where
  "morpho_db cfg ext =
     (case morpho_address cfg of
        Some address \<Rightarrow> import_morpho_db ext address
      | None \<Rightarrow>
          (case morpho_json_file cfg of
             None \<Rightarrow> Inl (AttributeError ''morpho_json_file'')
           | Some file \<Rightarrow> json_load ext file))"

text \<open>
  The exception of lines 87 and 92. Its message is built with \<open>%d\<close> from the specimen id,
  which raises TypeError instead when the id is a string.
\<close>

definition parse_error :: "py_value \<Rightarrow> py_key \<Rightarrow> string \<Rightarrow> py_error" where
  "parse_error data cell_specimen_id morpho_db_name =
     (case cell_specimen_id of
        KInt n \<Rightarrow> MorphoException data n morpho_db_name
      | KStr s \<Rightarrow> TypeError)"

text \<open>The body of the loop over \<open>col_names\<close> for one column: lines 81 to 92.\<close>

definition parse_annotation ::
  "externals \<Rightarrow> py_key \<Rightarrow> string \<Rightarrow> col_type \<Rightarrow> py_value \<Rightarrow> py_error + py_value" where
  "parse_annotation ext cell_specimen_id morpho_db_name ct data =
     (if data \<noteq> PNone then
        (case ct of
           Enum ts \<Rightarrow>
             (let d = filter (\<lambda>t. PStr t = data) ts in
              if length d = 1 then Inr (PStr (d ! 0))
              else Inl (parse_error data cell_specimen_id morpho_db_name))
         | Float \<Rightarrow>
             (case data of
                PStr s \<Rightarrow>
                  (case to_float ext s of
                     Some r \<Rightarrow> Inr (PNum r)
                   | None \<Rightarrow> Inl (parse_error data cell_specimen_id morpho_db_name))
              | _ \<Rightarrow> Inr data)
         | Str \<Rightarrow> Inr data)
      else Inr data)"

fun parse_columns ::
  "externals \<Rightarrow> py_key \<Rightarrow> morpho_row \<Rightarrow> (string \<times> string \<times> col_type) list \<Rightarrow>
   (string \<times> py_value) list \<Rightarrow> py_error + (string \<times> py_value) list" where
  "parse_columns ext sid cell_morpho [] results = Inr results"
| "parse_columns ext sid cell_morpho ((morpho_db_name, col_name, ct) # cols) results =
     (case map_of cell_morpho morpho_db_name of
        None \<Rightarrow> Inl (KeyError morpho_db_name)
      | Some data \<Rightarrow>
          bind_err (parse_annotation ext sid morpho_db_name ct data) (\<lambda>data'.
          parse_columns ext sid cell_morpho cols (AList.update col_name data' results)))"

text \<open>
  The effects of \<open>create_db_entries\<close>: what was printed, the records added to the session,
  and the cells as updated, each in order. An exception leaves the effects made so far.
\<close>

record import_state =
  printed :: "string list"
  session_added :: "Morphology list"
  cells_updated :: "Cell list"

text \<open>
  The body of the loop over the cells of the experiment: lines 48 to 112. \<open>pipettes\<close> is
  \<open>pip_meta.pipettes\<close> with the \<open>morphology\<close> entry of each pipette; a cell with no
  pipette raises KeyError, as does a cell whose meta has no \<open>transgenic_cell_class\<close>.
\<close>

definition import_cell ::
  "externals \<Rightarrow> (nat \<Rightarrow> string option option) \<Rightarrow> morpho_table \<Rightarrow> import_state \<Rightarrow> Cell \<Rightarrow>
   import_state \<times> py_error option" where
  "import_cell ext pipettes morpho_results st cell =
     (case pipettes (cell_ext_id cell) of
        None \<Rightarrow> (st, Some (KeyError ''pipettes''))
      | Some user_morpho \<Rightarrow>
          (let cell_specimen_id = lims_specimen_id cell;
               cell_morpho =
                 (case cell_specimen_id of
                    None \<Rightarrow> None
                  | Some sid \<Rightarrow> map_option (Pair sid) (map_of morpho_results sid));
               layer =
                 (case cell_specimen_id of
                    None \<Rightarrow> None
                  | Some sid \<Rightarrow>
                      map_option (dropWhile (\<lambda>c. c \<in> set ''Layer'')) (cell_layer ext sid));
               (pyr, st1) =
                 (if user_morpho = None \<or> user_morpho = Some [] then (None, st)
                  else if user_morpho = Some ''pyr'' then (Some True, st)
                  else (None,
                        st\<lparr>printed := printed st @
                             [''Unknown morphology string: '' @ the user_morpho]\<rparr>));
               parsed =
                 (case cell_morpho of
                    None \<Rightarrow> Inr (None, [])
                  | Some (sid, row) \<Rightarrow>
                      bind_err (parse_columns ext sid row col_names []) (\<lambda>results.
                      Inr (Some (md5_hexdigest ext (repr ext row)), results)))
           in case parsed of
                Inl e \<Rightarrow> (st1, Some e)
              | Inr (hash, results) \<Rightarrow>
                  (let morphology =
                         \<lparr> morph_cell_id = cell_id cell,
                           pyramidal = pyr,
                           cortical_layer = layer,
                           morpho_db_hash = hash,
                           annotations = results \<rparr>;
                       dtype = map_of results ''dendrite_type'';
                       morpho_class =
                         (if dtype = Some (PStr ''spiny'') then Some ''ex''
                          else if dtype = Some (PStr ''aspiny'') then Some ''in''
                          else None);
                       cell1 = cell\<lparr>morpho_cell_class := morpho_class\<rparr>
                   in case transgenic_cell_class cell of
                        None \<Rightarrow>
                          (st1\<lparr>cells_updated := cells_updated st1 @ [cell1]\<rparr>,
                           Some (KeyError ''transgenic_cell_class''))
                      | Some transgenic_class \<Rightarrow>
                          (let cell2 =
                                 (if transgenic_class = None
                                  then cell1\<lparr>cell_class_nonsynaptic := morpho_class\<rparr>
                                  else if morpho_class \<noteq> None \<and> transgenic_class \<noteq> morpho_class
                                  then cell1\<lparr>cell_class_nonsynaptic := None\<rparr>
                                  else cell1)
                           in (st1\<lparr>session_added := session_added st1 @ [morphology],
                                   cells_updated := cells_updated st1 @ [cell2]\<rparr>,
                               None)))))"

text \<open>The loop over \<open>expt.cells\<close>: an exception raised for one cell ends the loop.\<close>

fun import_cells ::
  "externals \<Rightarrow> (nat \<Rightarrow> string option option) \<Rightarrow> morpho_table \<Rightarrow> import_state \<Rightarrow> Cell list \<Rightarrow>
   import_state \<times> py_error option" where
  "import_cells ext pipettes morpho_results st [] = (st, None)"
| "import_cells ext pipettes morpho_results st (cell # rest) =
     (case import_cell ext pipettes morpho_results st cell of
        (st', Some e) \<Rightarrow> (st', Some e)
      | (st', None) \<Rightarrow> import_cells ext pipettes morpho_results st' rest)"

definition empty_import :: import_state where
  "empty_import = \<lparr> printed = [], session_added = [], cells_updated = [] \<rparr>"

definition create_db_entries ::
  "config \<Rightarrow> externals \<Rightarrow> database \<Rightarrow> real \<Rightarrow> import_state \<times> py_error option" where
  "create_db_entries cfg ext db job_id =
     (case experiment_from_timestamp db job_id of
        Inl e \<Rightarrow> (empty_import, Some e)
      | Inr expt \<Rightarrow>
          (case morpho_db cfg ext of
             Inl e \<Rightarrow> (empty_import, Some e)
           | Inr morpho_results \<Rightarrow>
               import_cells ext (pipette_metadata ext (storage_path expt)) morpho_results
                 empty_import (cells expt)))"

subsection \<open>\<open>ready_jobs\<close>\<close>

text \<open>\<open>sep.join(xs)\<close> and \<open>filter(None, xs)\<close> on a sequence of strings and \<open>None\<close>.\<close>

fun py_join :: "string \<Rightarrow> string list \<Rightarrow> string" where
  "py_join sep [] = []"
| "py_join sep [x] = x"
| "py_join sep (x # y # ys) = x @ sep @ py_join sep (y # ys)"

definition filter_None :: "string option list \<Rightarrow> string list" where
  "filter_None xs =
     concat (map (\<lambda>x. case x of None \<Rightarrow> [] | Some s \<Rightarrow> if s = [] then [] else [s]) xs)"

text \<open>
  \<open>morpho_results.get(cell.id, [None])\<close> as the sequence that \<open>filter\<close> iterates over:
  iterating over a dict yields its keys, so a row contributes its field names.
\<close>

definition get_items :: "morpho_table \<Rightarrow> py_key \<Rightarrow> string option list" where
  "get_items morpho_results cid =
     (case map_of morpho_results cid of
        None \<Rightarrow> [None]
      | Some row \<Rightarrow> map (\<lambda>(field, v). Some field) row)"

text \<open>Line 160.\<close>

definition ready_hash :: "externals \<Rightarrow> morpho_table \<Rightarrow> py_key \<Rightarrow> string" where
  "ready_hash ext morpho_results cid =
     md5_hexdigest ext (py_join '';'' (filter_None (get_items morpho_results cid)))"

text \<open>The loop over \<open>cluster_cells\<close>: lines 156 to 166.\<close>

fun cell_hash_compare :: "externals \<Rightarrow> morpho_table \<Rightarrow> py_key option list \<Rightarrow> bool list" where
  "cell_hash_compare ext morpho_results [] = []"
| "cell_hash_compare ext morpho_results (None # rest) = cell_hash_compare ext morpho_results rest"
| "cell_hash_compare ext morpho_results (Some cid # rest) =
     (let morpho_db_hash' = ready_hash ext morpho_results cid;
          cell_morpho_rec = morphology_query ext cid
      in (if length cell_morpho_rec = 1
          then Some morpho_db_hash' = morpho_db_hash (cell_morpho_rec ! 0)
          else False)
         # cell_hash_compare ext morpho_results rest)"

text \<open>
  The loop over the finished jobs of the experiment module: lines 144 to 168. \<open>ready\<close> is
  the OrderedDict, holding for each experiment id its \<open>dep_time\<close>.
\<close>

fun ready_loop ::
  "externals \<Rightarrow> database \<Rightarrow> morpho_table \<Rightarrow> (real \<times> real \<times> bool) list \<Rightarrow> (real \<times> real) list \<Rightarrow>
   py_error + (real \<times> real) list" where
  "ready_loop ext db morpho_results [] ready = Inr ready"
| "ready_loop ext db morpho_results ((expt_id, expt_mtime, success) # rest) ready =
     (if \<not> success then ready_loop ext db morpho_results rest ready
      else
        (case filter (\<lambda>e. ext_id e = expt_id) (experiments db) of
           [] \<Rightarrow> Inl IndexError
         | expt # _ \<Rightarrow>
             (let ready1 = AList.update expt_id expt_mtime ready in
              case lims_cell_cluster_id expt of
                None \<Rightarrow> ready_loop ext db morpho_results rest ready1
              | Some cluster \<Rightarrow>
                  (case cluster_cells ext cluster of
                     None \<Rightarrow> ready_loop ext db morpho_results rest ready1
                   | Some cs \<Rightarrow>
                       (if \<not> list_all (\<lambda>b. b) (cell_hash_compare ext morpho_results cs)
                        then ready_loop ext db morpho_results rest
                               (AList.update expt_id (datetime_now ext) ready1)
                        else ready_loop ext db morpho_results rest ready1)))))"

text \<open>
  \<open>ready_jobs\<close> returns what it printed and either the exception it raised or the ordered
  map. Only ImportError is caught around \<open>morpho_db()\<close>.
\<close>

definition ready_jobs ::
  "config \<Rightarrow> externals \<Rightarrow> database \<Rightarrow> string list \<times> (py_error + (real \<times> real) list)" where
  "ready_jobs cfg ext db =
     (case morpho_db cfg ext of
        Inl (ImportError msg) \<Rightarrow> ([''Skipping morphology: '' @ msg], Inr [])
      | Inl e \<Rightarrow> ([], Inl e)
      | Inr morpho_results \<Rightarrow> ([], ready_loop ext db morpho_results (finished_jobs ext) []))"

section \<open>The hash as the specification describes it\<close>

text \<open>
  Follows the words of the specification, not the source: the hash of the pipe-joined,
  null-filtered field values of a record. \<open>str_num\<close> renders a number as text.
\<close>

definition spec_content_hash :: "externals \<Rightarrow> (real \<Rightarrow> string) \<Rightarrow> morpho_row \<Rightarrow> string" where
  "spec_content_hash ext str_num row =
     md5_hexdigest ext
       (py_join ''|''
          (filter_None
             (map (\<lambda>(field, v). case v of PNone \<Rightarrow> None | PStr s \<Rightarrow> Some s
                                        | PNum r \<Rightarrow> Some (str_num r)) row)))"

text \<open>
  Follows the words of the specification: an annotation that is a data-quality error,
  namely a categorical value that matches zero or more than one value of its enumerated
  set, or a float-typed value that fails to parse.
\<close>

definition bad_annotation :: "externals \<Rightarrow> col_type \<Rightarrow> py_value \<Rightarrow> bool" where
  "bad_annotation ext ct data =
     (case ct of
        Enum ts \<Rightarrow> data \<noteq> PNone \<and> length (filter (\<lambda>t. PStr t = data) ts) \<noteq> 1
      | Float \<Rightarrow> (case data of PStr s \<Rightarrow> to_float ext s = None | _ \<Rightarrow> False)
      | Str \<Rightarrow> False)"

section \<open>Example data\<close>

definition example_cell :: "nat \<Rightarrow> py_key option \<Rightarrow> Cell" where
  "example_cell n sid =
     \<lparr> cell_id = n, cell_ext_id = n, lims_specimen_id = sid,
       transgenic_cell_class = Some None, morpho_cell_class = None,
       cell_class_nonsynaptic = None \<rparr>"

definition example_expt :: "real \<Rightarrow> Cell list \<Rightarrow> Experiment" where
  "example_expt ts cs =
     \<lparr> acq_timestamp = ts, ext_id = ts, storage_path = ''expt'',
       lims_cell_cluster_id = Some 7, cells = cs \<rparr>"

definition example_db :: database where
  "example_db =
     \<lparr> experiments = [example_expt 1 [], example_expt (2004 / 1000) [],
                      example_expt (2006 / 1000) [], example_expt 5 [],
                      example_expt 5 [example_cell 1 None]],
       slices = [\<lparr> slice_acq_timestamp = 5 \<rparr>, \<lparr> slice_acq_timestamp = 1 \<rparr>,
                 \<lparr> slice_acq_timestamp = 5 \<rparr>] \<rparr>"

text \<open>
  A minimizer that gives up at once: it returns its initial guess, not converged.
\<close>

definition example_minimize :: minimizer where
  "example_minimize f x0 args jac m bounds =
     Inr \<lparr> res_x = x0, res_fun = Fin 1, res_nfev = 7, res_success = False \<rparr>"

text \<open>A minimizer that raises.\<close>

definition raising_minimize :: minimizer where
  "raising_minimize f x0 args jac m bounds = Inl ValueError"

definition example_exp_method :: ExpFitMethod where
  "example_exp_method = \<lparr> exp_name = ''exp'', exp_method = None, use_jac = True \<rparr>"

definition example_psp_method :: PspFitMethod where
  "example_psp_method = \<lparr> psp_name = ''psp'', psp_method = None \<rparr>"

definition example_psp_func :: psp_func where
  "example_psp_func x xoffset yoffset amp rise_time decay_tau rise_power = Inr x"

definition example_y :: ndarray where
  "example_y = [Fin 3, Fin 2, Fin 1]"

definition example_t :: ndarray where
  "example_t = [Fin 0, Fin (1 / 2), Fin 1]"

text \<open>
  Rows of the external table: a well-formed one, the same row with one field changed, and
  one whose \<open>dendrite_type\<close> is not a value of the enumerated set.
\<close>

definition example_row :: "py_value \<Rightarrow> morpho_row" where
  "example_row dendrite =
     [(''Qual_Morpho_Type'', PStr ''pyramidal''),
      (''dendrite_type'', dendrite),
      (''Apical_truncation_distance'', PNum (25 / 2)),
      (''Axon_truncation_distance'', PNone),
      (''Axon origination'', PStr ''soma''),
      (''Axon_truncation'', PStr ''intact''),
      (''Apical_truncation'', PStr ''truncated'')]"

definition table_before :: morpho_table where
  "table_before = [(KInt 1, example_row (PStr ''spiny''))]"

definition table_after :: morpho_table where
  "table_after = [(KInt 1, example_row (PStr ''aspiny''))]"

definition table_bad :: morpho_table where
  "table_bad =
     [(KInt 1, example_row (PStr ''spiny'')),
      (KInt 2, example_row (PStr ''spiky'')),
      (KInt 3, AList.update ''Axon_truncation_distance'' (PStr ''12 um'')
                 (example_row (PStr ''spiny'')))]"

text \<open>
  Stand-ins for the library functions, so that examples are closed terms: a digest that
  keeps its message readable, a \<open>repr\<close> that lists the fields, a \<open>float\<close> that knows one
  literal. The theorems below hold for every choice of these functions.
\<close>

definition example_repr :: "morpho_row \<Rightarrow> string" where
  "example_repr row =
     concat (map (\<lambda>(k, v). k @ '': '' @
        (case v of PNone \<Rightarrow> ''None'' | PStr s \<Rightarrow> s | PNum r \<Rightarrow> ''number'') @ '', '') row)"

definition example_externals :: "(py_error + morpho_table) \<Rightarrow> externals" where
  "example_externals source =
     \<lparr> md5_hexdigest = (\<lambda>s. ''md5 of '' @ s),
       repr = example_repr,
       to_float = (\<lambda>s. if s = ''12.5'' then Some (25 / 2) else None),
       import_pyodbc = None,
       odbc_fetchall = (\<lambda>address. Inl (DatabaseError ''unable to connect'')),
       json_load = (\<lambda>file. source),
       pipette_metadata = (\<lambda>path n. if n = 3 then Some (Some ''stellate'') else Some None),
       cell_layer = (\<lambda>sid. Some ''Layer2/3''),
       cluster_cells = (\<lambda>cluster. Some [Some (KInt 1)]),
       finished_jobs = [(5, 100, True)],
       morphology_query = (\<lambda>sid. []),
       datetime_now = 200 \<rparr>"

definition json_config :: config where
  "json_config = \<lparr> morpho_address = None, morpho_json_file = Some ''morpho.json'' \<rparr>"

definition access_config :: config where
  "access_config = \<lparr> morpho_address = Some ''morpho.accdb'', morpho_json_file = None \<rparr>"

text \<open>One experiment at timestamp 5 with the given cells.\<close>

definition db_with_cells :: "Cell list \<Rightarrow> database" where
  "db_with_cells cs = \<lparr> experiments = [example_expt 5 cs], slices = [] \<rparr>"

section \<open>Lookups by timestamp\<close>

lemma scan_experiments_find:
  "scan_experiments ts es = find (\<lambda>e. \<bar>acq_timestamp e - ts\<bar> < 1 / 100) es"
  by (induction es) simp_all

lemma find_case_Inr:
  "(case find P xs of Some e \<Rightarrow> Inr e | None \<Rightarrow> Inl k) = Inr e \<longleftrightarrow>
     (\<exists>i < length xs. xs ! i = e \<and> P e \<and> (\<forall>j < i. \<not> P (xs ! j)))"
proof (cases "find P xs")
  case None
  then have "\<forall>x \<in> set xs. \<not> P x" unfolding find_None_iff by blast
  then have "\<not> (\<exists>i < length xs. xs ! i = e \<and> P e \<and> (\<forall>j < i. \<not> P (xs ! j)))"
    using nth_mem by blast
  with None show ?thesis by simp
next
  case (Some e')
  then obtain i where i: "i < length xs" "P (xs ! i)" "e' = xs ! i" "\<forall>j < i. \<not> P (xs ! j)"
    unfolding find_Some_iff by blast
  show ?thesis
  proof
    assume "(case find P xs of Some e \<Rightarrow> Inr e | None \<Rightarrow> Inl k) = Inr e"
    with Some have "e = e'" by simp
    with i show "\<exists>i < length xs. xs ! i = e \<and> P e \<and> (\<forall>j < i. \<not> P (xs ! j))"
      by blast
  next
    assume "\<exists>i < length xs. xs ! i = e \<and> P e \<and> (\<forall>j < i. \<not> P (xs ! j))"
    then obtain k' where k: "k' < length xs" "xs ! k' = e" "P e" "\<forall>j < k'. \<not> P (xs ! j)"
      by blast
    have "\<not> k' < i" using i(4) k(2,3) by blast
    moreover have "\<not> i < k'" using k(4) i(2) by blast
    ultimately have "k' = i" by simp
    with i(3) k(2) Some show "(case find P xs of Some e \<Rightarrow> Inr e | None \<Rightarrow> Inl k) = Inr e"
      by simp
  qed
qed

lemma find_case_Inl:
  "(case find P xs of Some e \<Rightarrow> Inr e | None \<Rightarrow> Inl k) = Inl k' \<longleftrightarrow>
     k' = k \<and> (\<forall>e \<in> set xs. \<not> P e)"
proof (cases "find P xs")
  case None
  moreover from None have "\<forall>e \<in> set xs. \<not> P e" unfolding find_None_iff by blast
  ultimately show ?thesis by auto
next
  case (Some e')
  then have "e' \<in> set xs \<and> P e'"
    unfolding find_Some_iff using nth_mem by blast
  with Some show ?thesis by auto
qed





text \<open>
  C10. When no experiment has exactly the queried timestamp, \<open>experiment_from_timestamp\<close>
  scans all experiments in order and returns the first whose \<open>acq_timestamp\<close> differs from
  the query by less than 0.01; it raises KeyError ("No experiment found ...") exactly when
  no experiment is that close, and raises nothing else.
\<close>

theorem experiment_fallback:
  assumes "filter (\<lambda>e. acq_timestamp e = ts) (experiments db) = []"
  shows "(\<forall>e. experiment_from_timestamp db ts = Inr e \<longleftrightarrow>
            (\<exists>i < length (experiments db).
               experiments db ! i = e \<and> \<bar>acq_timestamp e - ts\<bar> < 1 / 100 \<and>
               (\<forall>j < i. \<not> \<bar>acq_timestamp (experiments db ! j) - ts\<bar> < 1 / 100))) \<and>
         (experiment_from_timestamp db ts =
            Inl (KeyErrorTs ''No experiment found for timestamp'' ts) \<longleftrightarrow>
            (\<forall>e \<in> set (experiments db). \<not> \<bar>acq_timestamp e - ts\<bar> < 1 / 100)) \<and>
         (\<forall>err. experiment_from_timestamp db ts = Inl err \<longrightarrow>
            err = KeyErrorTs ''No experiment found for timestamp'' ts)"
proof -
  have unfolded: "experiment_from_timestamp db ts =
      (case find (\<lambda>e. \<bar>acq_timestamp e - ts\<bar> < 1 / 100) (experiments db) of
         Some e \<Rightarrow> Inr e
       | None \<Rightarrow> Inl (KeyErrorTs ''No experiment found for timestamp'' ts))"
    using assms by (simp add: experiment_from_timestamp_def scan_experiments_find)
  show ?thesis
    unfolding unfolded find_case_Inr find_case_Inl by blast
qed

theorem experiment_fallback_witness:
  "filter (\<lambda>e. acq_timestamp e = 2005 / 1000) (experiments example_db) = [] \<and>
   experiment_from_timestamp example_db (2005 / 1000) = Inr (example_expt (2004 / 1000) []) \<and>
   experiments example_db ! 1 = example_expt (2004 / 1000) [] \<and>
   \<not> \<bar>acq_timestamp (experiments example_db ! 0) - 2005 / 1000\<bar> < 1 / 100"
proof -
  have none: "filter (\<lambda>e. acq_timestamp e = 2005 / 1000) (experiments example_db) = []"
    by (simp add: example_db_def example_expt_def)
  have first: "\<exists>i < length (experiments example_db).
      experiments example_db ! i = example_expt (2004 / 1000) [] \<and>
      \<bar>acq_timestamp (example_expt (2004 / 1000) []) - 2005 / 1000\<bar> < 1 / 100 \<and>
      (\<forall>j < i. \<not> \<bar>acq_timestamp (experiments example_db ! j) - 2005 / 1000\<bar> < 1 / 100)"
    by (rule exI [of _ 1]) (simp add: example_db_def example_expt_def)
  from experiment_fallback [OF none] first
  have "experiment_from_timestamp example_db (2005 / 1000) = Inr (example_expt (2004 / 1000) [])"
    by blast
  with none show ?thesis by (simp add: example_db_def example_expt_def)
qed

section \<open>Fitting: initial guess and returned result\<close>

lemma py_first_Cons: "xs \<noteq> [] \<Longrightarrow> py_first xs = Inr (hd xs)"
  by (cases xs) (simp_all add: py_first_def)

lemma py_last_Cons: "xs \<noteq> [] \<Longrightarrow> py_last xs = Inr (last xs)"
  by (simp add: py_last_def)

lemma ExpFitMethod_fit_eq:
  assumes "y \<noteq> []" and "t \<noteq> []"
  shows "ExpFitMethod_fit minimize clock self y t =
     (case minimize exp_err_fn [last y, np_sub (hd y) (last y), np_sub (last t) (hd t)] (t, y)
             (if use_jac self then Some exp_jac_fn else None) (exp_method self) None of
        Inl e \<Rightarrow> Inl e
      | Inr fit \<Rightarrow>
          if 3 \<le> length (res_x fit) then
            Inr \<lparr> exp_fit = fit,
                  exp_yoffset = res_x fit ! 0,
                  exp_amp = res_x fit ! 1,
                  exp_tau = res_x fit ! 2,
                  exp_init_yoffset = last y,
                  exp_init_amp = np_sub (hd y) (last y),
                  exp_init_tau = np_sub (last t) (hd t),
                  exp_err = res_fun fit,
                  exp_nfev = res_nfev fit,
                  exp_success = res_success fit,
                  exp_fit_time = snd clock - fst clock \<rparr>
          else Inl IndexError)"
  using assms
  by (auto simp: ExpFitMethod_fit_def py_first_Cons py_last_Cons bind_err_def py_index_def Let_def
           split: sum.splits)

lemma PspFitMethod_fit_eq:
  assumes "y \<noteq> []" and "t \<noteq> []"
  shows "PspFitMethod_fit minimize psp clock self y t =
     (case minimize (psp_err_fn psp)
             [last y, np_sub (hd y) (last y), np_div (np_sub (last t) (hd t)) (Fin 3),
              np_sub (last t) (hd t)] (t, y) None (psp_method self) (Some psp_bounds) of
        Inl e \<Rightarrow> Inl e
      | Inr fit \<Rightarrow>
          if 4 \<le> length (res_x fit) then
            Inr \<lparr> psp_fit = fit,
                  psp_yoffset = res_x fit ! 0,
                  psp_amp = res_x fit ! 1,
                  psp_rise_time = res_x fit ! 2,
                  psp_decay_tau = res_x fit ! 3,
                  psp_init_yoffset = last y,
                  psp_init_amp = np_sub (hd y) (last y),
                  psp_init_rise_time = np_div (np_sub (last t) (hd t)) (Fin 3),
                  psp_init_decay_tau = np_sub (last t) (hd t),
                  psp_err = res_fun fit,
                  psp_nfev = res_nfev fit,
                  psp_success = res_success fit,
                  psp_fit_time = snd clock - fst clock \<rparr>
          else Inl IndexError)"
  using assms
  by (auto simp: PspFitMethod_fit_def py_first_Cons py_last_Cons bind_err_def py_index_def Let_def
           split: sum.splits)

lemma fit_empty:
  "y = [] \<or> t = [] \<Longrightarrow> ExpFitMethod_fit minimize clock self y t = Inl IndexError"
  "y = [] \<or> t = [] \<Longrightarrow> PspFitMethod_fit minimize psp clock pself y t = Inl IndexError"
  by (auto simp: ExpFitMethod_fit_def PspFitMethod_fit_def py_first_def py_last_def bind_err_def
        split: list.splits)


text \<open>
  C5. For non-empty \<open>y\<close> and \<open>t\<close> the initial guess is yOffset = the last element of \<open>y\<close>,
  amplitude = the first element of \<open>y\<close> minus yOffset, and for the exponential model
  tau = last time minus first time, for the PSP model decayTau = last time minus first
  time and riseTime = decayTau / 3. The minimizer is called with exactly this vector: a
  result of \<open>fit\<close> holds the minimizer's value at it and the same numbers in its
  initial-guess fields, and \<open>fit\<close> returns whenever the minimizer returns there a
  parameter vector of the model's length.
\<close>

theorem initial_guess:
  assumes "y \<noteq> []" and "t \<noteq> []"
  shows
    "(\<forall>r. ExpFitMethod_fit minimize clock self y t = Inr r \<longrightarrow>
        minimize exp_err_fn [last y, np_sub (hd y) (last y), np_sub (last t) (hd t)] (t, y)
          (if use_jac self then Some exp_jac_fn else None) (exp_method self) None
          = Inr (exp_fit r) \<and>
        exp_init_yoffset r = last y \<and>
        exp_init_amp r = np_sub (hd y) (last y) \<and>
        exp_init_tau r = np_sub (last t) (hd t)) \<and>
     (\<forall>res. minimize exp_err_fn [last y, np_sub (hd y) (last y), np_sub (last t) (hd t)] (t, y)
          (if use_jac self then Some exp_jac_fn else None) (exp_method self) None = Inr res \<and>
        3 \<le> length (res_x res) \<longrightarrow>
        (\<exists>r. ExpFitMethod_fit minimize clock self y t = Inr r \<and> exp_fit r = res)) \<and>
     (\<forall>r. PspFitMethod_fit minimize psp clock pself y t = Inr r \<longrightarrow>
        minimize (psp_err_fn psp)
          [last y, np_sub (hd y) (last y), np_div (np_sub (last t) (hd t)) (Fin 3),
           np_sub (last t) (hd t)] (t, y) None (psp_method pself) (Some psp_bounds)
          = Inr (psp_fit r) \<and>
        psp_init_yoffset r = last y \<and>
        psp_init_amp r = np_sub (hd y) (last y) \<and>
        psp_init_decay_tau r = np_sub (last t) (hd t) \<and>
        psp_init_rise_time r = np_div (psp_init_decay_tau r) (Fin 3)) \<and>
     (\<forall>res. minimize (psp_err_fn psp)
          [last y, np_sub (hd y) (last y), np_div (np_sub (last t) (hd t)) (Fin 3),
           np_sub (last t) (hd t)] (t, y) None (psp_method pself) (Some psp_bounds) = Inr res \<and>
        4 \<le> length (res_x res) \<longrightarrow>
        (\<exists>r. PspFitMethod_fit minimize psp clock pself y t = Inr r \<and> psp_fit r = res))"
proof -
  note e = ExpFitMethod_fit_eq [OF assms, of minimize clock self]
  note p = PspFitMethod_fit_eq [OF assms, of minimize psp clock pself]
  have e1: "ExpFitMethod_fit minimize clock self y t = Inr r \<Longrightarrow>
        minimize exp_err_fn [last y, np_sub (hd y) (last y), np_sub (last t) (hd t)] (t, y)
          (if use_jac self then Some exp_jac_fn else None) (exp_method self) None
          = Inr (exp_fit r) \<and>
        exp_init_yoffset r = last y \<and>
        exp_init_amp r = np_sub (hd y) (last y) \<and>
        exp_init_tau r = np_sub (last t) (hd t)" for r
    unfolding e by (auto split: sum.splits if_splits)
  have e2: "minimize exp_err_fn [last y, np_sub (hd y) (last y), np_sub (last t) (hd t)] (t, y)
          (if use_jac self then Some exp_jac_fn else None) (exp_method self) None = Inr res \<Longrightarrow>
        3 \<le> length (res_x res) \<Longrightarrow>
        \<exists>r. ExpFitMethod_fit minimize clock self y t = Inr r \<and> exp_fit r = res" for res
    unfolding e by simp
  have p1: "PspFitMethod_fit minimize psp clock pself y t = Inr r \<Longrightarrow>
        minimize (psp_err_fn psp)
          [last y, np_sub (hd y) (last y), np_div (np_sub (last t) (hd t)) (Fin 3),
           np_sub (last t) (hd t)] (t, y) None (psp_method pself) (Some psp_bounds)
          = Inr (psp_fit r) \<and>
        psp_init_yoffset r = last y \<and>
        psp_init_amp r = np_sub (hd y) (last y) \<and>
        psp_init_decay_tau r = np_sub (last t) (hd t) \<and>
        psp_init_rise_time r = np_div (psp_init_decay_tau r) (Fin 3)" for r
    unfolding p by (auto split: sum.splits if_splits)
  have p2: "minimize (psp_err_fn psp)
          [last y, np_sub (hd y) (last y), np_div (np_sub (last t) (hd t)) (Fin 3),
           np_sub (last t) (hd t)] (t, y) None (psp_method pself) (Some psp_bounds) = Inr res \<Longrightarrow>
        4 \<le> length (res_x res) \<Longrightarrow>
        \<exists>r. PspFitMethod_fit minimize psp clock pself y t = Inr r \<and> psp_fit r = res" for res
    unfolding p by simp
  from e1 e2 p1 p2 show ?thesis by blast
qed

theorem initial_guess_witness:
  "example_y \<noteq> [] \<and> example_t \<noteq> [] \<and>
   (\<exists>r. ExpFitMethod_fit example_minimize (0, 1) example_exp_method example_y example_t = Inr r \<and>
        res_x (exp_fit r) = [Fin 1, Fin 2, Fin 1] \<and>
        exp_init_yoffset r = Fin 1 \<and> exp_init_amp r = Fin 2 \<and> exp_init_tau r = Fin 1) \<and>
   (\<exists>r. PspFitMethod_fit example_minimize example_psp_func (0, 1) example_psp_method
          example_y example_t = Inr r \<and>
        res_x (psp_fit r) = [Fin 1, Fin 2, Fin (1 / 3), Fin 1] \<and>
        psp_init_yoffset r = Fin 1 \<and> psp_init_amp r = Fin 2 \<and>
        psp_init_rise_time r = Fin (1 / 3) \<and> psp_init_decay_tau r = Fin 1)"
proof -
  have y: "example_y \<noteq> []" and t: "example_t \<noteq> []"
    by (simp_all add: example_y_def example_t_def)
  note g = initial_guess [OF y t, of example_minimize "(0, 1)" example_exp_method
      example_psp_func example_psp_method]
  let ?eres = "\<lparr> res_x = [last example_y, np_sub (hd example_y) (last example_y),
                         np_sub (last example_t) (hd example_t)],
                  res_fun = Fin 1, res_nfev = 7, res_success = False \<rparr>"
  let ?pres = "\<lparr> res_x = [last example_y, np_sub (hd example_y) (last example_y),
                         np_div (np_sub (last example_t) (hd example_t)) (Fin 3),
                         np_sub (last example_t) (hd example_t)],
                  res_fun = Fin 1, res_nfev = 7, res_success = False \<rparr>"
  from g have "\<exists>r. ExpFitMethod_fit example_minimize (0, 1) example_exp_method example_y
      example_t = Inr r \<and> exp_fit r = ?eres"
    by (simp add: example_minimize_def)
  then obtain r where r: "ExpFitMethod_fit example_minimize (0, 1) example_exp_method example_y
      example_t = Inr r" "exp_fit r = ?eres"
    by blast
  from g r(1) have ri: "exp_init_yoffset r = last example_y"
      "exp_init_amp r = np_sub (hd example_y) (last example_y)"
      "exp_init_tau r = np_sub (last example_t) (hd example_t)"
    by blast+
  from g have "\<exists>r. PspFitMethod_fit example_minimize example_psp_func (0, 1) example_psp_method
      example_y example_t = Inr r \<and> psp_fit r = ?pres"
    by (simp add: example_minimize_def)
  then obtain q where q: "PspFitMethod_fit example_minimize example_psp_func (0, 1)
      example_psp_method example_y example_t = Inr q" "psp_fit q = ?pres"
    by blast
  from g q(1) have qi: "psp_init_yoffset q = last example_y"
      "psp_init_amp q = np_sub (hd example_y) (last example_y)"
      "psp_init_decay_tau q = np_sub (last example_t) (hd example_t)"
      "psp_init_rise_time q = np_div (psp_init_decay_tau q) (Fin 3)"
    by blast+
  have vals: "last example_y = Fin 1" "np_sub (hd example_y) (last example_y) = Fin 2"
      "np_sub (last example_t) (hd example_t) = Fin 1"
      "np_div (np_sub (last example_t) (hd example_t)) (Fin 3) = Fin (1 / 3)"
    by (simp_all add: example_y_def example_t_def np_sub_def)
  have "\<exists>r. ExpFitMethod_fit example_minimize (0, 1) example_exp_method example_y example_t
        = Inr r \<and>
      res_x (exp_fit r) = [Fin 1, Fin 2, Fin 1] \<and>
      exp_init_yoffset r = Fin 1 \<and> exp_init_amp r = Fin 2 \<and> exp_init_tau r = Fin 1"
    using r ri vals by (intro exI [of _ r]) simp
  moreover have "\<exists>r. PspFitMethod_fit example_minimize example_psp_func (0, 1)
        example_psp_method example_y example_t = Inr r \<and>
      res_x (psp_fit r) = [Fin 1, Fin 2, Fin (1 / 3), Fin 1] \<and>
      psp_init_yoffset r = Fin 1 \<and> psp_init_amp r = Fin 2 \<and>
      psp_init_rise_time r = Fin (1 / 3) \<and> psp_init_decay_tau r = Fin 1"
    using q qi vals by (intro exI [of _ q]) simp
  ultimately show ?thesis using y t by blast
qed


text \<open>
  C4, as stated, fails: \<open>fit\<close> raises IndexError on empty sample arrays.
\<close>

theorem fit_never_raises_counterexample:
  "ExpFitMethod_fit example_minimize (0, 1) example_exp_method [] [] = Inl IndexError \<and>
   PspFitMethod_fit example_minimize example_psp_func (0, 1) example_psp_method [] []
     = Inl IndexError"
  by (simp add: ExpFitMethod_fit_def PspFitMethod_fit_def py_last_def bind_err_def)

text \<open>
  C4, amended. For non-empty \<open>y\<close> and \<open>t\<close>, \<open>fit\<close> raises only what the minimizer raises:
  when the minimizer returns a result whose parameter vector has the model's length,
  \<open>fit\<close> returns, and the returned record copies the minimizer's success flag (false when
  it did not converge), its parameter vector, its residual norm and its evaluation count
  \<open>nfev\<close>. When \<open>y\<close> or \<open>t\<close> is empty, \<open>fit\<close> raises IndexError.
\<close>

theorem fit_returns_minimizer_result:
  "(y = [] \<or> t = [] \<longrightarrow>
      ExpFitMethod_fit minimize clock self y t = Inl IndexError \<and>
      PspFitMethod_fit minimize psp clock pself y t = Inl IndexError) \<and>
   (y \<noteq> [] \<and> t \<noteq> [] \<longrightarrow>
      (\<forall>res. minimize exp_err_fn [last y, np_sub (hd y) (last y), np_sub (last t) (hd t)] (t, y)
            (if use_jac self then Some exp_jac_fn else None) (exp_method self) None = Inr res \<and>
          3 \<le> length (res_x res) \<longrightarrow>
          (\<exists>r. ExpFitMethod_fit minimize clock self y t = Inr r \<and>
               exp_success r = res_success res \<and>
               exp_yoffset r = res_x res ! 0 \<and> exp_amp r = res_x res ! 1 \<and>
               exp_tau r = res_x res ! 2 \<and>
               exp_err r = res_fun res \<and> exp_nfev r = res_nfev res)) \<and>
      (\<forall>e. minimize exp_err_fn [last y, np_sub (hd y) (last y), np_sub (last t) (hd t)] (t, y)
            (if use_jac self then Some exp_jac_fn else None) (exp_method self) None = Inl e \<longrightarrow>
          ExpFitMethod_fit minimize clock self y t = Inl e) \<and>
      (\<forall>res. minimize (psp_err_fn psp)
            [last y, np_sub (hd y) (last y), np_div (np_sub (last t) (hd t)) (Fin 3),
             np_sub (last t) (hd t)] (t, y) None (psp_method pself) (Some psp_bounds) = Inr res \<and>
          4 \<le> length (res_x res) \<longrightarrow>
          (\<exists>r. PspFitMethod_fit minimize psp clock pself y t = Inr r \<and>
               psp_success r = res_success res \<and>
               psp_yoffset r = res_x res ! 0 \<and> psp_amp r = res_x res ! 1 \<and>
               psp_rise_time r = res_x res ! 2 \<and> psp_decay_tau r = res_x res ! 3 \<and>
               psp_err r = res_fun res \<and> psp_nfev r = res_nfev res)) \<and>
      (\<forall>e. minimize (psp_err_fn psp)
            [last y, np_sub (hd y) (last y), np_div (np_sub (last t) (hd t)) (Fin 3),
             np_sub (last t) (hd t)] (t, y) None (psp_method pself) (Some psp_bounds) = Inl e \<longrightarrow>
          PspFitMethod_fit minimize psp clock pself y t = Inl e))"
proof -
  have empty: "y = [] \<or> t = [] \<Longrightarrow>
      ExpFitMethod_fit minimize clock self y t = Inl IndexError \<and>
      PspFitMethod_fit minimize psp clock pself y t = Inl IndexError"
    by (simp add: fit_empty)
  have nonempty: "(\<forall>res. minimize exp_err_fn [last y, np_sub (hd y) (last y), np_sub (last t) (hd t)] (t, y)
            (if use_jac self then Some exp_jac_fn else None) (exp_method self) None = Inr res \<and>
          3 \<le> length (res_x res) \<longrightarrow>
          (\<exists>r. ExpFitMethod_fit minimize clock self y t = Inr r \<and>
               exp_success r = res_success res \<and>
               exp_yoffset r = res_x res ! 0 \<and> exp_amp r = res_x res ! 1 \<and>
               exp_tau r = res_x res ! 2 \<and>
               exp_err r = res_fun res \<and> exp_nfev r = res_nfev res)) \<and>
      (\<forall>e. minimize exp_err_fn [last y, np_sub (hd y) (last y), np_sub (last t) (hd t)] (t, y)
            (if use_jac self then Some exp_jac_fn else None) (exp_method self) None = Inl e \<longrightarrow>
          ExpFitMethod_fit minimize clock self y t = Inl e) \<and>
      (\<forall>res. minimize (psp_err_fn psp)
            [last y, np_sub (hd y) (last y), np_div (np_sub (last t) (hd t)) (Fin 3),
             np_sub (last t) (hd t)] (t, y) None (psp_method pself) (Some psp_bounds) = Inr res \<and>
          4 \<le> length (res_x res) \<longrightarrow>
          (\<exists>r. PspFitMethod_fit minimize psp clock pself y t = Inr r \<and>
               psp_success r = res_success res \<and>
               psp_yoffset r = res_x res ! 0 \<and> psp_amp r = res_x res ! 1 \<and>
               psp_rise_time r = res_x res ! 2 \<and> psp_decay_tau r = res_x res ! 3 \<and>
               psp_err r = res_fun res \<and> psp_nfev r = res_nfev res)) \<and>
      (\<forall>e. minimize (psp_err_fn psp)
            [last y, np_sub (hd y) (last y), np_div (np_sub (last t) (hd t)) (Fin 3),
             np_sub (last t) (hd t)] (t, y) None (psp_method pself) (Some psp_bounds) = Inl e \<longrightarrow>
          PspFitMethod_fit minimize psp clock pself y t = Inl e)"
    if ne: "y \<noteq> []" "t \<noteq> []"
  proof -
    note e = ExpFitMethod_fit_eq [OF ne, of minimize clock self]
    note p = PspFitMethod_fit_eq [OF ne, of minimize psp clock pself]
    have e1: "minimize exp_err_fn [last y, np_sub (hd y) (last y), np_sub (last t) (hd t)] (t, y)
            (if use_jac self then Some exp_jac_fn else None) (exp_method self) None = Inr res \<Longrightarrow>
          3 \<le> length (res_x res) \<Longrightarrow>
          \<exists>r. ExpFitMethod_fit minimize clock self y t = Inr r \<and>
               exp_success r = res_success res \<and>
               exp_yoffset r = res_x res ! 0 \<and> exp_amp r = res_x res ! 1 \<and>
               exp_tau r = res_x res ! 2 \<and>
               exp_err r = res_fun res \<and> exp_nfev r = res_nfev res" for res
      unfolding e by simp
    have e2: "minimize exp_err_fn [last y, np_sub (hd y) (last y), np_sub (last t) (hd t)] (t, y)
            (if use_jac self then Some exp_jac_fn else None) (exp_method self) None = Inl err \<Longrightarrow>
          ExpFitMethod_fit minimize clock self y t = Inl err" for err
      unfolding e by simp
    have p1: "minimize (psp_err_fn psp)
            [last y, np_sub (hd y) (last y), np_div (np_sub (last t) (hd t)) (Fin 3),
             np_sub (last t) (hd t)] (t, y) None (psp_method pself) (Some psp_bounds) = Inr res \<Longrightarrow>
          4 \<le> length (res_x res) \<Longrightarrow>
          \<exists>r. PspFitMethod_fit minimize psp clock pself y t = Inr r \<and>
               psp_success r = res_success res \<and>
               psp_yoffset r = res_x res ! 0 \<and> psp_amp r = res_x res ! 1 \<and>
               psp_rise_time r = res_x res ! 2 \<and> psp_decay_tau r = res_x res ! 3 \<and>
               psp_err r = res_fun res \<and> psp_nfev r = res_nfev res" for res
      unfolding p by simp
    have p2: "minimize (psp_err_fn psp)
            [last y, np_sub (hd y) (last y), np_div (np_sub (last t) (hd t)) (Fin 3),
             np_sub (last t) (hd t)] (t, y) None (psp_method pself) (Some psp_bounds) = Inl err \<Longrightarrow>
          PspFitMethod_fit minimize psp clock pself y t = Inl err" for err
      unfolding p by simp
    from e1 e2 p1 p2 show ?thesis by blast
  qed
  from empty nonempty show ?thesis by blast
qed

theorem fit_returns_minimizer_result_witness:
  "(\<exists>r. ExpFitMethod_fit example_minimize (0, 1) example_exp_method example_y example_t = Inr r \<and>
        exp_success r = False \<and>
        [exp_yoffset r, exp_amp r, exp_tau r] = [Fin 1, Fin 2, Fin 1] \<and>
        exp_err r = Fin 1 \<and> exp_nfev r = 7) \<and>
   (\<exists>r. PspFitMethod_fit example_minimize example_psp_func (0, 1) example_psp_method
          example_y example_t = Inr r \<and>
        psp_success r = False \<and>
        [psp_yoffset r, psp_amp r, psp_rise_time r, psp_decay_tau r]
          = [Fin 1, Fin 2, Fin (1 / 3), Fin 1] \<and>
        psp_err r = Fin 1 \<and> psp_nfev r = 7) \<and>
   ExpFitMethod_fit raising_minimize (0, 1) example_exp_method example_y example_t
     = Inl ValueError \<and>
   PspFitMethod_fit raising_minimize example_psp_func (0, 1) example_psp_method
     example_y example_t = Inl ValueError \<and>
   ExpFitMethod_fit example_minimize (0, 1) example_exp_method example_y [] = Inl IndexError \<and>
   PspFitMethod_fit example_minimize example_psp_func (0, 1) example_psp_method [] example_t
     = Inl IndexError"
proof -
  have ne: "example_y \<noteq> [] \<and> example_t \<noteq> []"
    by (simp add: example_y_def example_t_def)
  have vals: "hd example_y = Fin 3" "last example_y = Fin 1"
      "hd example_t = Fin 0" "last example_t = Fin 1"
    by (simp_all add: example_y_def example_t_def)
  note ok = fit_returns_minimizer_result [of example_y example_t example_minimize "(0, 1)"
      example_exp_method example_psp_func example_psp_method, THEN conjunct2, THEN mp, OF ne]
  let ?eres = "\<lparr> res_x = [Fin 1, Fin 2, Fin 1],
                  res_fun = Fin 1, res_nfev = 7, res_success = False \<rparr>"
  let ?pres = "\<lparr> res_x = [Fin 1, Fin 2, Fin (1 / 3), Fin 1],
                  res_fun = Fin 1, res_nfev = 7, res_success = False \<rparr>"
  have "\<exists>r. ExpFitMethod_fit example_minimize (0, 1) example_exp_method example_y example_t
          = Inr r \<and>
        exp_success r = res_success ?eres \<and>
        exp_yoffset r = res_x ?eres ! 0 \<and> exp_amp r = res_x ?eres ! 1 \<and>
        exp_tau r = res_x ?eres ! 2 \<and>
        exp_err r = res_fun ?eres \<and> exp_nfev r = res_nfev ?eres"
    by (rule ok [THEN conjunct1, THEN spec, THEN mp])
       (simp add: vals np_sub_def example_minimize_def)
  then have a: "\<exists>r. ExpFitMethod_fit example_minimize (0, 1) example_exp_method example_y
          example_t = Inr r \<and>
        exp_success r = False \<and>
        [exp_yoffset r, exp_amp r, exp_tau r] = [Fin 1, Fin 2, Fin 1] \<and>
        exp_err r = Fin 1 \<and> exp_nfev r = 7"
    by simp
  have "\<exists>r. PspFitMethod_fit example_minimize example_psp_func (0, 1) example_psp_method
          example_y example_t = Inr r \<and>
        psp_success r = res_success ?pres \<and>
        psp_yoffset r = res_x ?pres ! 0 \<and> psp_amp r = res_x ?pres ! 1 \<and>
        psp_rise_time r = res_x ?pres ! 2 \<and> psp_decay_tau r = res_x ?pres ! 3 \<and>
        psp_err r = res_fun ?pres \<and> psp_nfev r = res_nfev ?pres"
    by (rule ok [THEN conjunct2, THEN conjunct2, THEN conjunct1, THEN spec, THEN mp])
       (simp add: vals np_sub_def example_minimize_def)
  then have b: "\<exists>r. PspFitMethod_fit example_minimize example_psp_func (0, 1)
          example_psp_method example_y example_t = Inr r \<and>
        psp_success r = False \<and>
        [psp_yoffset r, psp_amp r, psp_rise_time r, psp_decay_tau r]
          = [Fin 1, Fin 2, Fin (1 / 3), Fin 1] \<and>
        psp_err r = Fin 1 \<and> psp_nfev r = 7"
    by simp
  note bad = fit_returns_minimizer_result [of example_y example_t raising_minimize "(0, 1)"
      example_exp_method example_psp_func example_psp_method, THEN conjunct2, THEN mp, OF ne]
  have c: "ExpFitMethod_fit raising_minimize (0, 1) example_exp_method example_y example_t
        = Inl ValueError"
    by (rule bad [THEN conjunct2, THEN conjunct1, THEN spec, THEN mp])
       (simp add: raising_minimize_def)
  have d: "PspFitMethod_fit raising_minimize example_psp_func (0, 1) example_psp_method
        example_y example_t = Inl ValueError"
    by (rule bad [THEN conjunct2, THEN conjunct2, THEN conjunct2, THEN spec, THEN mp])
       (simp add: raising_minimize_def)
  have e: "ExpFitMethod_fit example_minimize (0, 1) example_exp_method example_y [] = Inl IndexError"
    by (rule fit_returns_minimizer_result [of example_y "[]" example_minimize "(0, 1)"
          example_exp_method example_psp_func example_psp_method,
          THEN conjunct1, THEN mp, THEN conjunct1]) simp
  have f: "PspFitMethod_fit example_minimize example_psp_func (0, 1) example_psp_method []
      example_t = Inl IndexError"
    by (rule fit_returns_minimizer_result [of "[]" example_t example_minimize "(0, 1)"
          example_exp_method example_psp_func example_psp_method,
          THEN conjunct1, THEN mp, THEN conjunct2]) simp
  from a b c d e f show ?thesis by blast
qed

section \<open>Fitting: the analytic gradient at a perfect fit\<close>

lemma np_div_zero_not_finite: "\<not> is_finite (np_div x (Fin 0))"
  by (cases x) (simp_all add: signed_inf_def)

lemma np_neg_sub: "np_neg (np_sub a b) = np_sub b a"
  by (cases a; cases b) (simp_all add: np_sub_def)

lemma np_pow2_neg: "np_pow2 (np_neg x) = np_pow2 x"
  by (cases x) (simp_all add: np_pow2_def signed_inf_def)

lemma map_neg_map2_sub: "map np_neg (map2 np_sub a b) = map2 np_sub b a"
proof (induction a arbitrary: b)
  case Nil
  then show ?case by simp
next
  case (Cons x xs)
  then show ?case by (cases b) (simp_all add: np_neg_sub)
qed

lemma np_bop_sub_swap:
  assumes "np_bop np_sub a b = Inr r"
  shows "np_bop np_sub b a = Inr (map np_neg r)"
proof -
  consider (eq) "length a = length b"
    | (left) "length a \<noteq> length b" "length a = 1"
    | (right) "length a \<noteq> length b" "length a \<noteq> 1" "length b = 1"
    using assms by (auto simp: np_bop_def split: if_splits)
  then show ?thesis
  proof cases
    case eq
    with assms have "r = map2 np_sub a b"
      by (simp add: np_bop_def)
    then have "map np_neg r = map2 np_sub b a"
      using map_neg_map2_sub [of a b] by simp
    with eq show ?thesis
      by (simp add: np_bop_def)
  next
    case left
    with assms show ?thesis
      by (auto simp: np_bop_def np_neg_sub)
  next
    case right
    with assms show ?thesis
      by (auto simp: np_bop_def np_neg_sub)
  qed
qed

lemma np_bop_length:
  assumes "np_bop f a b = Inr r"
  shows "length r = (if length a = length b then length a
                     else if length a = 1 then length b else length a)"
  using assms by (auto simp: np_bop_def split: if_splits)

lemma np_bop_defined:
  assumes "length a = length b \<or> length a = 1 \<or> length b = 1"
  shows "\<exists>r. np_bop f a b = Inr r"
  using assms by (auto simp: np_bop_def)

lemma np_bop_shape:
  assumes "np_bop f a b = Inr r"
  shows "length a = length b \<or> length a = 1 \<or> length b = 1"
  using assms by (auto simp: np_bop_def split: if_splits)


lemma exp_jac_fn_at_zero_norm:
  assumes "exp_err_fn params t y = Inr (Fin 0)"
  shows "\<exists>n1 n2 n3. exp_jac_fn params t y =
           Inr [np_div n1 (Fin 0), np_div n2 (Fin 0), np_div n3 (Fin 0)]"
proof -
  from assms obtain yoff amp tau where params: "params = [yoff, amp, tau]"
    by (auto simp: exp_err_fn_def exp_fn_def bind_err_def split: list.splits)
  define e where "e = exp_t_tau_of tau t"
  define f where "f = map (\<lambda>x. np_add yoff (np_mul amp x)) e"
  have len: "length e = length t" "length f = length t"
    by (simp_all add: e_def f_def exp_t_tau_of_def)
  from assms obtain r0 where r0: "np_bop np_sub y f = Inr r0" "linalg_norm r0 = Fin 0"
    by (auto simp: exp_err_fn_def exp_fn_def bind_err_def params e_def f_def split: sum.splits)
  define resid where "resid = map np_neg r0"
  have resid: "np_bop np_sub f y = Inr resid"
    unfolding resid_def using r0(1) by (rule np_bop_sub_swap)
  have norm: "np_sqrt (np_sum (map np_pow2 resid)) = Fin 0"
    using r0(2) by (simp add: resid_def linalg_norm_def o_def np_pow2_neg)
  have shape: "length t = length y \<or> length t = 1 \<or> length y = 1"
    using np_bop_shape [OF resid] len by simp
  have len_resid: "length resid =
      (if length t = length y then length t else if length t = 1 then length y else length t)"
    using np_bop_length [OF resid] len by simp
  have "length resid = length e \<or> length resid = 1 \<or> length e = 1"
    using shape len_resid len by auto
  then obtain re where re: "np_bop np_mul resid e = Inr re"
    using np_bop_defined by blast
  have "length (map (np_mul amp) resid) = length e \<or> length (map (np_mul amp) resid) = 1 \<or>
      length e = 1"
    using shape len_resid len by auto
  then obtain are where are: "np_bop np_mul (map (np_mul amp) resid) e = Inr are"
    using np_bop_defined by blast
  have "length are = length t \<or> length are = 1 \<or> length t = 1"
    using np_bop_length [OF are] shape len_resid len by (auto split: if_splits)
  then obtain aret where aret: "np_bop np_mul are t = Inr aret"
    using np_bop_defined by blast
  have "exp_jac_fn params t y =
      Inr [np_div (np_sub (np_add (np_mul (Fin (real (length y))) yoff)
                                  (np_sum (map (np_mul amp) e))) (np_sum y)) (Fin 0),
           np_div (np_sum re) (Fin 0),
           np_div (np_sum (map (\<lambda>x. np_div x (np_pow2 tau)) aret)) (Fin 0)]"
    unfolding exp_jac_fn_def params
    using resid re are aret norm
    by (simp add: bind_err_def Let_def e_def [symmetric] f_def [symmetric])
  then show ?thesis by blast
qed

text \<open>
  C3, as stated, fails: at a perfect fit the gradient function divides by the zero norm
  and returns \<open>nan\<close> in every component, not zero. Here \<open>y = yoff + amp * exp(-t / tau)\<close>
  holds exactly with \<open>yoff = 1\<close>, \<open>amp = 0\<close>, \<open>tau = 1\<close>.
\<close>

theorem zero_gradient_counterexample:
  "exp_err_fn [Fin 1, Fin 0, Fin 1] [Fin 0, Fin 1] [Fin 1, Fin 1] = Inr (Fin 0) \<and>
   exp_jac_fn [Fin 1, Fin 0, Fin 1] [Fin 0, Fin 1] [Fin 1, Fin 1] = Inr [NaN, NaN, NaN] \<and>
   exp_jac_fn [Fin 1, Fin 0, Fin 1] [Fin 0, Fin 1] [Fin 1, Fin 1] \<noteq> Inr [Fin 0, Fin 0, Fin 0]"
  by (simp add: exp_err_fn_def exp_jac_fn_def exp_fn_def exp_t_tau_of_def bind_err_def
        np_bop_def linalg_norm_def np_sum_def np_pow2_def np_sub_def signed_inf_def Let_def)

text \<open>
  C3, amended. When the residual norm is zero (a perfect fit), the exponential analytic
  gradient function has no guard: it returns a three-component vector, each component
  a quotient by the zero norm, hence \<open>nan\<close> or an infinity and never a finite number;
  in particular the result is not the zero vector. Nothing is raised.
\<close>

theorem gradient_at_perfect_fit:
  assumes "exp_err_fn params t y = Inr (Fin 0)"
  shows "\<exists>dyoff damp dtau.
           exp_jac_fn params t y = Inr [dyoff, damp, dtau] \<and>
           \<not> is_finite dyoff \<and> \<not> is_finite damp \<and> \<not> is_finite dtau"
  using exp_jac_fn_at_zero_norm [OF assms] np_div_zero_not_finite by blast

theorem gradient_at_perfect_fit_witness:
  "exp_err_fn [Fin 1, Fin 2, Fin 1] [Fin 0] [Fin 3] = Inr (Fin 0) \<and>
   (\<exists>dyoff damp dtau.
      exp_jac_fn [Fin 1, Fin 2, Fin 1] [Fin 0] [Fin 3] = Inr [dyoff, damp, dtau] \<and>
      \<not> is_finite dyoff \<and> \<not> is_finite damp \<and> \<not> is_finite dtau)"
proof -
  have perfect: "exp_err_fn [Fin 1, Fin 2, Fin 1] [Fin 0] [Fin 3] = Inr (Fin 0)"
    by (simp add: exp_err_fn_def exp_fn_def exp_t_tau_of_def bind_err_def
          np_bop_def linalg_norm_def np_sum_def np_pow2_def np_sub_def)
  from gradient_at_perfect_fit [OF perfect] perfect show ?thesis by blast
qed

section \<open>Morphology: an unavailable external source\<close>

text \<open>
  C2, as stated, fails: when the Access database cannot be reached, or the JSON file
  cannot be read, \<open>ready_jobs\<close> raises; only a missing driver module is caught.
\<close>

theorem source_unavailable_counterexample:
  "ready_jobs access_config (example_externals (Inr table_before)) example_db
     = ([], Inl (DatabaseError ''unable to connect'')) \<and>
   ready_jobs json_config (example_externals (Inl (IOError ''No such file''))) example_db
     = ([], Inl (IOError ''No such file''))"
  by (simp add: ready_jobs_def morpho_db_def import_morpho_db_def access_config_def
        json_config_def example_externals_def bind_err_def)

text \<open>
  C2, amended. When the external morphology source is unavailable because its driver
  module cannot be imported (ImportError), \<open>ready_jobs\<close> prints "Skipping morphology: ..."
  and returns an empty ordered map without raising. Every other failure of the source
  (database unreachable, file unreadable) is not caught: \<open>ready_jobs\<close> raises it to the
  caller and prints nothing.
\<close>

theorem source_unavailable:
  "(\<forall>msg. morpho_db cfg ext = Inl (ImportError msg) \<longrightarrow>
      ready_jobs cfg ext db = ([''Skipping morphology: '' @ msg], Inr [])) \<and>
   (\<forall>address msg. morpho_address cfg = Some address \<and> import_pyodbc ext = Some msg \<longrightarrow>
      ready_jobs cfg ext db = ([''Skipping morphology: '' @ msg], Inr [])) \<and>
   (\<forall>e. morpho_db cfg ext = Inl e \<and> (\<forall>msg. e \<noteq> ImportError msg) \<longrightarrow>
      ready_jobs cfg ext db = ([], Inl e))"
proof -
  have caught: "morpho_db cfg ext = Inl (ImportError msg) \<Longrightarrow>
      ready_jobs cfg ext db = ([''Skipping morphology: '' @ msg], Inr [])" for msg
    by (simp add: ready_jobs_def)
  have driver: "morpho_address cfg = Some address \<Longrightarrow> import_pyodbc ext = Some msg \<Longrightarrow>
      morpho_db cfg ext = Inl (ImportError msg)" for address msg
    by (simp add: morpho_db_def import_morpho_db_def)
  have other: "morpho_db cfg ext = Inl e \<Longrightarrow> (\<forall>msg. e \<noteq> ImportError msg) \<Longrightarrow>
      ready_jobs cfg ext db = ([], Inl e)" for e
    by (cases e) (simp_all add: ready_jobs_def)
  from caught driver other show ?thesis by blast
qed

theorem source_unavailable_witness:
  "ready_jobs access_config
     ((example_externals (Inr table_before))\<lparr>import_pyodbc := Some ''No module named pyodbc''\<rparr>)
     example_db
     = ([''Skipping morphology: No module named pyodbc''], Inr []) \<and>
   ready_jobs access_config (example_externals (Inr table_before)) example_db
     = ([], Inl (DatabaseError ''unable to connect''))"
proof -
  let ?missing = "(example_externals (Inr table_before))
      \<lparr>import_pyodbc := Some ''No module named pyodbc''\<rparr>"
  have "morpho_address access_config = Some ''morpho.accdb'' \<and>
      import_pyodbc ?missing = Some ''No module named pyodbc''"
    by (simp add: access_config_def example_externals_def)
  with source_unavailable [of access_config ?missing example_db]
  have a: "ready_jobs access_config ?missing example_db
      = ([''Skipping morphology: '' @ ''No module named pyodbc''], Inr [])"
    by blast
  have "morpho_db access_config ?missing = Inl (ImportError ''No module named pyodbc'')"
    by (simp add: morpho_db_def import_morpho_db_def access_config_def example_externals_def)
  with source_unavailable [of access_config ?missing example_db]
  have a': "ready_jobs access_config ?missing example_db
      = ([''Skipping morphology: '' @ ''No module named pyodbc''], Inr [])"
    by blast
  have "morpho_db access_config (example_externals (Inr table_before))
      = Inl (DatabaseError ''unable to connect'') \<and>
      (\<forall>msg. DatabaseError ''unable to connect'' \<noteq> ImportError msg)"
    by (simp add: morpho_db_def import_morpho_db_def access_config_def example_externals_def
          bind_err_def)
  with source_unavailable [of access_config "example_externals (Inr table_before)" example_db]
  have b: "ready_jobs access_config (example_externals (Inr table_before)) example_db
      = ([], Inl (DatabaseError ''unable to connect''))"
    by blast
  from a a' b show ?thesis by simp
qed

section \<open>Morphology: the hash computed by ready\_jobs\<close>

lemma py_join_concat:
  "py_join sep xs = (case xs of [] \<Rightarrow> [] | x # rest \<Rightarrow> x @ concat (map (\<lambda>s. sep @ s) rest))"
  by (induction sep xs rule: py_join.induct) simp_all

lemma filter_None_comprehension: "filter_None xs = [s. Some s \<leftarrow> xs, s \<noteq> []]"
  by (induction xs) (auto simp: filter_None_def split: option.splits)

lemma get_items_example_row:
  "get_items [(KInt 1, example_row d)] (KInt 1) =
     [Some ''Qual_Morpho_Type'', Some ''dendrite_type'', Some ''Apical_truncation_distance'',
      Some ''Axon_truncation_distance'', Some ''Axon origination'', Some ''Axon_truncation'',
      Some ''Apical_truncation'']"
  by (simp add: get_items_def example_row_def)

lemma ready_hash_example_row:
  "ready_hash ext [(KInt 1, example_row d)] (KInt 1) =
     md5_hexdigest ext ''Qual_Morpho_Type;dendrite_type;Apical_truncation_distance;Axon_truncation_distance;Axon origination;Axon_truncation;Apical_truncation''"
  by (simp add: ready_hash_def get_items_example_row filter_None_def)

text \<open>
  C6, as stated, fails: the message hashed by \<open>ready_jobs\<close> is joined with semicolons, not
  pipes, and it is not made of the record's field values. (The digest of the example keeps
  its message readable.)
\<close>

theorem pipe_joined_values_counterexample:
  "ready_hash (example_externals (Inr table_before)) table_before (KInt 1) =
     ''md5 of Qual_Morpho_Type;dendrite_type;Apical_truncation_distance;Axon_truncation_distance;Axon origination;Axon_truncation;Apical_truncation'' \<and>
   spec_content_hash (example_externals (Inr table_before)) (\<lambda>r. ''12.5'')
       (example_row (PStr ''spiny'')) =
     ''md5 of pyramidal|spiny|12.5|soma|intact|truncated'' \<and>
   ready_hash (example_externals (Inr table_before)) table_before (KInt 1) \<noteq>
     spec_content_hash (example_externals (Inr table_before)) (\<lambda>r. ''12.5'')
       (example_row (PStr ''spiny''))"
proof -
  have a: "ready_hash (example_externals (Inr table_before)) table_before (KInt 1) =
     ''md5 of Qual_Morpho_Type;dendrite_type;Apical_truncation_distance;Axon_truncation_distance;Axon origination;Axon_truncation;Apical_truncation''"
    unfolding table_before_def ready_hash_example_row by (simp add: example_externals_def)
  have b: "spec_content_hash (example_externals (Inr table_before)) (\<lambda>r. ''12.5'')
       (example_row (PStr ''spiny'')) =
     ''md5 of pyramidal|spiny|12.5|soma|intact|truncated''"
    by (simp add: spec_content_hash_def example_row_def filter_None_def example_externals_def)
  show ?thesis unfolding a b by simp
qed

text \<open>
  C6, amended. For every external morphology record, the content hash computed by
  \<open>ready_jobs\<close> is a deterministic hash (the md5 hex digest) of the semicolon-joined,
  null-filtered sequence of strings that \<open>ready_jobs\<close> reads from the record: the strings
  that are neither \<open>None\<close> nor empty, in order, with one semicolon between neighbours. For
  a specimen that has no record it is the digest of the empty string.
\<close>

theorem ready_hash_message:
  "ready_hash ext morpho_results cid =
     md5_hexdigest ext
       (case [s. Some s \<leftarrow> get_items morpho_results cid, s \<noteq> []] of
          [] \<Rightarrow> []
        | x # rest \<Rightarrow> x @ concat (map (\<lambda>s. '';'' @ s) rest)) \<and>
   (map_of morpho_results cid = None \<longrightarrow>
      ready_hash ext morpho_results cid = md5_hexdigest ext [])"
proof -
  have "ready_hash ext morpho_results cid =
     md5_hexdigest ext
       (case [s. Some s \<leftarrow> get_items morpho_results cid, s \<noteq> []] of
          [] \<Rightarrow> []
        | x # rest \<Rightarrow> x @ concat (map (\<lambda>s. '';'' @ s) rest))"
    unfolding ready_hash_def filter_None_comprehension [symmetric]
    by (subst py_join_concat) (rule refl)
  moreover have "map_of morpho_results cid = None \<Longrightarrow>
      ready_hash ext morpho_results cid = md5_hexdigest ext []"
    by (simp add: ready_hash_def get_items_def filter_None_def)
  ultimately show ?thesis by blast
qed

theorem ready_hash_message_witness:
  "map_of table_before (KInt 2) = None \<and>
   ready_hash (example_externals (Inr table_before)) table_before (KInt 2) = ''md5 of '' \<and>
   ready_hash (example_externals (Inr table_before)) table_before (KInt 1) =
     ''md5 of Qual_Morpho_Type;dendrite_type;Apical_truncation_distance;Axon_truncation_distance;Axon origination;Axon_truncation;Apical_truncation''"
proof -
  have none: "map_of table_before (KInt 2) = None"
    by (simp add: table_before_def)
  note h = ready_hash_message [of "example_externals (Inr table_before)" table_before]
  have digest: "md5_hexdigest (example_externals (Inr table_before)) s = ''md5 of '' @ s" for s
    by (simp add: example_externals_def)
  from h [of "KInt 2", THEN conjunct2, THEN mp, OF none]
  have a: "ready_hash (example_externals (Inr table_before)) table_before (KInt 2) = ''md5 of ''"
    unfolding digest by simp
  have items: "[s. Some s \<leftarrow> get_items table_before (KInt 1), s \<noteq> []] =
     [''Qual_Morpho_Type'', ''dendrite_type'', ''Apical_truncation_distance'',
      ''Axon_truncation_distance'', ''Axon origination'', ''Axon_truncation'',
      ''Apical_truncation'']"
    unfolding table_before_def get_items_example_row by simp
  from h [of "KInt 1", THEN conjunct1]
  have b: "ready_hash (example_externals (Inr table_before)) table_before (KInt 1) =
     ''md5 of Qual_Morpho_Type;dendrite_type;Apical_truncation_distance;Axon_truncation_distance;Axon origination;Axon_truncation;Apical_truncation''"
    unfolding items digest by simp
  from none a b show ?thesis by blast
qed

section \<open>Morphology: stored and recomputed hash\<close>

lemma cell_hash_compare_cong:
  assumes "md5_hexdigest e1 = md5_hexdigest e2"
    and "morphology_query e1 = morphology_query e2"
    and "\<And>cid. get_items A cid = get_items B cid"
  shows "cell_hash_compare e1 A cs = cell_hash_compare e2 B cs"
proof (induction cs)
  case Nil
  then show ?case by simp
next
  case (Cons c cs)
  then show ?case
    using assms by (cases c) (simp_all add: ready_hash_def Let_def)
qed

lemma ready_loop_cong:
  assumes "md5_hexdigest e1 = md5_hexdigest e2"
    and "morphology_query e1 = morphology_query e2"
    and "cluster_cells e1 = cluster_cells e2"
    and "datetime_now e1 = datetime_now e2"
    and "\<And>cid. get_items A cid = get_items B cid"
  shows "ready_loop e1 db A jobs ready = ready_loop e2 db B jobs ready"
proof (induction jobs arbitrary: ready)
  case Nil
  then show ?case by simp
next
  case (Cons job jobs)
  obtain expt_id expt_mtime success where job: "job = (expt_id, expt_mtime, success)"
    by (cases job) auto
  have cmp: "cell_hash_compare e1 A cs = cell_hash_compare e2 B cs" for cs
    using assms(1,2,5) by (rule cell_hash_compare_cong)
  show ?case
    unfolding job
    by (simp add: Cons.IH cmp assms(3,4) Let_def split: list.splits option.splits)
qed

lemma get_items_before_after: "get_items table_before cid = get_items table_after cid"
  by (simp add: get_items_def table_before_def table_after_def example_row_def)

lemma ready_jobs_before_after:
  "ready_jobs json_config (ext\<lparr>json_load := \<lambda>file. Inr table_after\<rparr>) db =
   ready_jobs json_config (ext\<lparr>json_load := \<lambda>file. Inr table_before\<rparr>) db"
proof -
  have "ready_loop (ext\<lparr>json_load := \<lambda>file. Inr table_after\<rparr>) db table_after jobs [] =
      ready_loop (ext\<lparr>json_load := \<lambda>file. Inr table_before\<rparr>) db table_before jobs []" for jobs
    by (rule ready_loop_cong) (simp_all add: get_items_before_after)
  then show ?thesis
    by (simp add: ready_jobs_def morpho_db_def json_config_def)
qed

lemma import_example_cell_hash:
  "map morpho_db_hash (session_added (fst (import_cell ext (\<lambda>n. Some None) table_before
      empty_import (example_cell 1 (Some (KInt 1)))))) =
     [Some (md5_hexdigest ext (repr ext (example_row (PStr ''spiny''))))]"
proof -
  have parsed: "parse_columns ext (KInt 1) (example_row (PStr ''spiny'')) col_names [] =
      Inr [(''qual_morpho_type'', PStr ''pyramidal''), (''dendrite_type'', PStr ''spiny''),
           (''apical_trunc_distance'', PNum (25 / 2)), (''axon_trunc_distance'', PNone),
           (''axon_origin'', PStr ''soma''), (''axon_truncation'', PStr ''intact''),
           (''apical_truncation'', PStr ''truncated'')]"
    by (simp add: col_names_def example_row_def parse_annotation_def bind_err_def)
  show ?thesis
    by (simp add: import_cell_def table_before_def parsed bind_err_def example_cell_def
          empty_import_def Let_def)
qed

text \<open>
  C1. The hash stored at import and the hash recomputed by \<open>ready_jobs\<close> are not the same
  function of the external row. \<open>create_db_entries\<close> stores the digest of \<open>repr\<close> of the
  row, which depends on the field values; \<open>ready_jobs\<close> digests the semicolon-joined
  field names. When a field value of the row changes (here \<open>dendrite_type\<close> from spiny to
  aspiny), the recomputed hash, and with it everything \<open>ready_jobs\<close> returns, stays the
  same: whether the recomputed hash equals the stored one does not depend on whether the
  row changed. This holds for every digest function and every \<open>repr\<close>.
\<close>

theorem freshness_hash_ignores_field_values:
  "map morpho_db_hash (session_added (fst (import_cell ext (\<lambda>n. Some None) table_before
      empty_import (example_cell 1 (Some (KInt 1)))))) =
     [Some (md5_hexdigest ext (repr ext (example_row (PStr ''spiny''))))] \<and>
   ready_hash ext table_before (KInt 1) =
     md5_hexdigest ext ''Qual_Morpho_Type;dendrite_type;Apical_truncation_distance;Axon_truncation_distance;Axon origination;Axon_truncation;Apical_truncation'' \<and>
   table_after \<noteq> table_before \<and>
   ready_hash ext table_after (KInt 1) = ready_hash ext table_before (KInt 1) \<and>
   ready_jobs json_config (ext\<lparr>json_load := \<lambda>file. Inr table_after\<rparr>) db =
     ready_jobs json_config (ext\<lparr>json_load := \<lambda>file. Inr table_before\<rparr>) db"
proof -
  have differ: "table_after \<noteq> table_before"
    by (simp add: table_after_def table_before_def example_row_def)
  have before: "ready_hash ext table_before (KInt 1) =
     md5_hexdigest ext ''Qual_Morpho_Type;dendrite_type;Apical_truncation_distance;Axon_truncation_distance;Axon origination;Axon_truncation;Apical_truncation''"
    unfolding table_before_def by (rule ready_hash_example_row)
  have same: "ready_hash ext table_after (KInt 1) = ready_hash ext table_before (KInt 1)"
    by (simp add: ready_hash_def get_items_before_after)
  from import_example_cell_hash before differ same ready_jobs_before_after
  show ?thesis by blast
qed

section \<open>Morphology: annotations that fail to parse\<close>

lemma parse_annotation_bad:
  assumes "bad_annotation ext ct data"
  shows "parse_annotation ext sid col ct data = Inl (parse_error data sid col)"
  using assms
  by (cases ct; cases data)
     (auto simp: bad_annotation_def parse_annotation_def Let_def split: option.splits)

lemma parse_annotation_good:
  assumes "\<not> bad_annotation ext ct data"
  shows "\<exists>d. parse_annotation ext sid col ct data = Inr d"
  using assms
  by (cases ct; cases data)
     (auto simp: bad_annotation_def parse_annotation_def Let_def split: option.splits)

lemma parse_columns_bad:
  assumes "\<forall>c \<in> set cols. map_of row (fst c) \<noteq> None"
    and "\<exists>c \<in> set cols. bad_annotation ext (snd (snd c)) (the (map_of row (fst c)))"
  shows "\<exists>c \<in> set cols.
           bad_annotation ext (snd (snd c)) (the (map_of row (fst c))) \<and>
           parse_columns ext sid row cols results =
             Inl (parse_error (the (map_of row (fst c))) sid (fst c))"
  using assms
proof (induction cols arbitrary: results)
  case Nil
  then show ?case by simp
next
  case (Cons c cols)
  obtain dbn cn ct where c: "c = (dbn, cn, ct)"
    by (cases c) auto
  from Cons.prems(1) c obtain data where data: "map_of row dbn = Some data"
    by auto
  show ?case
  proof (cases "bad_annotation ext ct data")
    case True
    then show ?thesis
      by (simp add: c data parse_annotation_bad bind_err_def)
  next
    case False
    then obtain d where d: "parse_annotation ext sid dbn ct data = Inr d"
      using parse_annotation_good by blast
    from Cons.prems(2) False c data
    have rest: "\<exists>c \<in> set cols. bad_annotation ext (snd (snd c)) (the (map_of row (fst c)))"
      by auto
    from Cons.prems(1) have present: "\<forall>c \<in> set cols. map_of row (fst c) \<noteq> None"
      by simp
    from Cons.IH [OF present rest, of "AList.update cn d results"]
    show ?thesis
      by (auto simp: c data d bind_err_def)
  qed
qed

lemma import_cell_bad:
  assumes "pipettes (cell_ext_id cell) = Some um"
    and "lims_specimen_id cell = Some (KInt n)"
    and "map_of morpho_results (KInt n) = Some row"
    and "\<forall>c \<in> set col_names. map_of row (fst c) \<noteq> None"
    and "\<exists>c \<in> set col_names. bad_annotation ext (snd (snd c)) (the (map_of row (fst c)))"
  shows "\<exists>c \<in> set col_names. \<exists>st'.
           bad_annotation ext (snd (snd c)) (the (map_of row (fst c))) \<and>
           import_cell ext pipettes morpho_results st cell =
             (st', Some (MorphoException (the (map_of row (fst c))) n (fst c))) \<and>
           session_added st' = session_added st"
proof -
  from parse_columns_bad [OF assms(4,5), of "KInt n" "[]"]
  obtain c where col: "c \<in> set col_names"
      "bad_annotation ext (snd (snd c)) (the (map_of row (fst c)))"
      "parse_columns ext (KInt n) row col_names [] =
         Inl (MorphoException (the (map_of row (fst c))) n (fst c))"
    by (auto simp: parse_error_def)
  have "\<exists>st'. import_cell ext pipettes morpho_results st cell =
             (st', Some (MorphoException (the (map_of row (fst c))) n (fst c))) \<and>
           session_added st' = session_added st"
    by (simp add: import_cell_def assms(1,2,3) col(3) bind_err_def Let_def)
  with col(1,2) show ?thesis by blast
qed

lemma import_cells_abort:
  assumes "import_cells ext pipettes morpho_results st before = (st1, None)"
    and "import_cell ext pipettes morpho_results st1 cell = (st2, Some e)"
  shows "import_cells ext pipettes morpho_results st (before @ cell # after) = (st2, Some e)"
  using assms
proof (induction before arbitrary: st)
  case Nil
  then show ?case by simp
next
  case (Cons c cs)
  then show ?case
    by (auto split: prod.splits option.splits)
qed

lemma import_cell_ok_adds_one:
  assumes "import_cell ext pipettes morpho_results st cell = (st', None)"
  shows "length (session_added st') = Suc (length (session_added st))"
  using assms
  by (auto simp: import_cell_def Let_def split: option.splits sum.splits prod.splits if_splits)

lemma import_cells_ok_length:
  assumes "import_cells ext pipettes morpho_results st cs = (st', None)"
  shows "length (session_added st') = length (session_added st) + length cs"
  using assms
proof (induction cs arbitrary: st)
  case Nil
  then show ?case by simp
next
  case (Cons c cs)
  obtain st1 r where step: "import_cell ext pipettes morpho_results st c = (st1, r)"
    by (cases "import_cell ext pipettes morpho_results st c") auto
  with Cons.prems have r: "r = None"
    by (cases r) auto
  with Cons.prems step have "import_cells ext pipettes morpho_results st1 cs = (st', None)"
    by simp
  from Cons.IH [OF this] import_cell_ok_adds_one [OF step [unfolded r]]
  show ?case by simp
qed

text \<open>
  C7, as stated, fails: a bad annotation of one cell aborts the import of the whole
  experiment. Cell 2 (specimen 1) is well-formed and is imported when it is alone, but in
  a batch behind cell 1 (specimen 2, \<open>dendrite_type\<close> "spiky") nothing is imported.
\<close>

theorem other_cells_still_imported_counterexample:
  "create_db_entries json_config (example_externals (Inr table_bad))
     (db_with_cells [example_cell 1 (Some (KInt 2)), example_cell 2 (Some (KInt 1))]) 5
     = (empty_import, Some (MorphoException (PStr ''spiky'') 2 ''dendrite_type'')) \<and>
   map morph_cell_id (session_added (fst (create_db_entries json_config
     (example_externals (Inr table_bad)) (db_with_cells [example_cell 2 (Some (KInt 1))]) 5)))
     = [2] \<and>
   snd (create_db_entries json_config
     (example_externals (Inr table_bad)) (db_with_cells [example_cell 2 (Some (KInt 1))]) 5)
     = None"
proof -
  have expt: "experiment_from_timestamp (db_with_cells cs) 5 = Inr (example_expt 5 cs)" for cs
    by (simp add: experiment_from_timestamp_def db_with_cells_def example_expt_def)
  have source: "morpho_db json_config (example_externals (Inr table_bad)) = Inr table_bad"
    by (simp add: morpho_db_def json_config_def example_externals_def)
  have bad: "parse_columns (example_externals (Inr table_bad)) (KInt 2)
        (example_row (PStr ''spiky'')) col_names []
      = Inl (MorphoException (PStr ''spiky'') 2 ''dendrite_type'')"
    by (simp add: col_names_def example_row_def parse_annotation_def parse_error_def
          bind_err_def)
  have good: "\<exists>r. parse_columns (example_externals (Inr table_bad)) (KInt 1)
        (example_row (PStr ''spiny'')) col_names [] = Inr r"
    by (simp add: col_names_def example_row_def parse_annotation_def bind_err_def)
  then obtain r where r: "parse_columns (example_externals (Inr table_bad)) (KInt 1)
        (example_row (PStr ''spiny'')) col_names [] = Inr r"
    by blast
  have pip: "n \<noteq> 3 \<Longrightarrow> pipette_metadata (example_externals (Inr table_bad)) p n = Some None"
    for p n
    by (simp add: example_externals_def)
  have rows: "map_of table_bad (KInt 1) = Some (example_row (PStr ''spiny''))"
      "map_of table_bad (KInt 2) = Some (example_row (PStr ''spiky''))"
    by (simp_all add: table_bad_def)
  have a: "create_db_entries json_config (example_externals (Inr table_bad))
     (db_with_cells [example_cell 1 (Some (KInt 2)), example_cell 2 (Some (KInt 1))]) 5
     = (empty_import, Some (MorphoException (PStr ''spiky'') 2 ''dendrite_type''))"
    by (simp add: create_db_entries_def expt source example_expt_def import_cell_def
          example_cell_def pip rows bad bind_err_def Let_def)
  have b: "map morph_cell_id (session_added (fst (create_db_entries json_config
     (example_externals (Inr table_bad)) (db_with_cells [example_cell 2 (Some (KInt 1))]) 5)))
     = [2] \<and>
   snd (create_db_entries json_config
     (example_externals (Inr table_bad)) (db_with_cells [example_cell 2 (Some (KInt 1))]) 5)
     = None"
    by (simp add: create_db_entries_def expt source example_expt_def import_cell_def
          example_cell_def pip rows r bind_err_def Let_def empty_import_def)
  from a b show ?thesis by blast
qed

text \<open>
  C7, amended. When a cell's row in the external table has an annotation that is a
  data-quality error (a categorical value that does not match exactly one value of its
  enumerated set, or a float-typed string that fails to parse), the import raises an
  exception that carries the offending value, the cell's specimen id and the column (for
  an integer specimen id and a row that has every column). The exception is not caught
  per record: it ends \<open>create_db_entries\<close> for the experiment, so that the cells before
  the bad one have been added to the session and neither the bad cell nor any cell after
  it is imported.
\<close>

theorem bad_annotation_aborts_import:
  assumes "experiment_from_timestamp db job_id = Inr expt"
    and "morpho_db cfg ext = Inr morpho_results"
    and "cells expt = before @ cell # after"
    and "import_cells ext (pipette_metadata ext (storage_path expt)) morpho_results
           empty_import before = (st1, None)"
    and "pipette_metadata ext (storage_path expt) (cell_ext_id cell) = Some um"
    and "lims_specimen_id cell = Some (KInt n)"
    and "map_of morpho_results (KInt n) = Some row"
    and "\<forall>c \<in> set col_names. map_of row (fst c) \<noteq> None"
    and "\<exists>c \<in> set col_names. bad_annotation ext (snd (snd c)) (the (map_of row (fst c)))"
  shows "\<exists>c \<in> set col_names. \<exists>st2.
           bad_annotation ext (snd (snd c)) (the (map_of row (fst c))) \<and>
           create_db_entries cfg ext db job_id =
             (st2, Some (MorphoException (the (map_of row (fst c))) n (fst c))) \<and>
           session_added st2 = session_added st1 \<and>
           length (session_added st2) = length before"
proof -
  let ?pip = "pipette_metadata ext (storage_path expt)"
  from import_cell_bad [where pipettes = ?pip and st = st1, OF assms(5,6,7,8,9)]
  obtain c st2 where c: "c \<in> set col_names"
      "bad_annotation ext (snd (snd c)) (the (map_of row (fst c)))"
      "import_cell ext ?pip morpho_results st1 cell =
         (st2, Some (MorphoException (the (map_of row (fst c))) n (fst c)))"
      "session_added st2 = session_added st1"
    by blast
  from import_cells_abort [OF assms(4) c(3), of after]
  have "create_db_entries cfg ext db job_id =
      (st2, Some (MorphoException (the (map_of row (fst c))) n (fst c)))"
    by (simp add: create_db_entries_def assms(1,2,3))
  moreover from import_cells_ok_length [OF assms(4)]
  have "length (session_added st2) = length before"
    by (simp add: c(4) empty_import_def)
  ultimately show ?thesis using c(1,2,4) by blast
qed

theorem bad_annotation_aborts_import_witness:
  "\<exists>c \<in> set col_names. \<exists>st2.
     create_db_entries json_config (example_externals (Inr table_bad))
       (db_with_cells [example_cell 2 (Some (KInt 1)), example_cell 1 (Some (KInt 3)),
                       example_cell 4 (Some (KInt 1))]) 5
       = (st2, Some (MorphoException
            (the (map_of (AList.update ''Axon_truncation_distance'' (PStr ''12 um'')
                            (example_row (PStr ''spiny''))) (fst c))) 3 (fst c))) \<and>
     length (session_added st2) = 1"
proof -
  let ?E = "example_externals (Inr table_bad)"
  let ?c2 = "example_cell 2 (Some (KInt 1))"
  let ?c1 = "example_cell 1 (Some (KInt 3))"
  let ?c4 = "example_cell 4 (Some (KInt 1))"
  let ?row = "AList.update ''Axon_truncation_distance'' (PStr ''12 um'')
      (example_row (PStr ''spiny''))"
  let ?expt = "example_expt 5 [?c2, ?c1, ?c4]"
  have h1: "experiment_from_timestamp (db_with_cells [?c2, ?c1, ?c4]) 5 = Inr ?expt"
    by (simp add: experiment_from_timestamp_def db_with_cells_def example_expt_def)
  have h2: "morpho_db json_config ?E = Inr table_bad"
    by (simp add: morpho_db_def json_config_def example_externals_def)
  have h3: "cells ?expt = [?c2] @ ?c1 # [?c4]"
    by (simp add: example_expt_def)
  have pip: "n \<noteq> 3 \<Longrightarrow> pipette_metadata ?E p n = Some None" for p n
    by (simp add: example_externals_def)
  have rows: "map_of table_bad (KInt 1) = Some (example_row (PStr ''spiny''))"
      "map_of table_bad (KInt 3) = Some ?row"
    by (simp_all add: table_bad_def)
  have "\<exists>r. parse_columns ?E (KInt 1) (example_row (PStr ''spiny'')) col_names [] = Inr r"
    by (simp add: col_names_def example_row_def parse_annotation_def bind_err_def)
  then obtain r where r: "parse_columns ?E (KInt 1) (example_row (PStr ''spiny''))
      col_names [] = Inr r"
    by blast
  have "\<exists>st1. import_cells ?E (pipette_metadata ?E (storage_path ?expt)) table_bad
      empty_import [?c2] = (st1, None)"
    by (simp add: import_cell_def example_cell_def pip rows r bind_err_def Let_def)
  then obtain st1 where h4: "import_cells ?E (pipette_metadata ?E (storage_path ?expt))
      table_bad empty_import [?c2] = (st1, None)"
    by blast
  have h5: "pipette_metadata ?E (storage_path ?expt) (cell_ext_id ?c1) = Some None"
    by (simp add: pip example_cell_def)
  have h6: "lims_specimen_id ?c1 = Some (KInt 3)"
    by (simp add: example_cell_def)
  have h8: "\<forall>c \<in> set col_names. map_of ?row (fst c) \<noteq> None"
    by (simp add: col_names_def example_row_def)
  have "(''Axon_truncation_distance'', ''axon_trunc_distance'', Float) \<in> set col_names \<and>
      bad_annotation ?E Float (the (map_of ?row ''Axon_truncation_distance''))"
    by (simp add: col_names_def example_row_def bad_annotation_def example_externals_def)
  then have h9: "\<exists>c \<in> set col_names. bad_annotation ?E (snd (snd c)) (the (map_of ?row (fst c)))"
    by force
  from bad_annotation_aborts_import [OF h1 h2 h3 h4 h5 h6 rows(2) h8 h9]
  show ?thesis by auto
qed

section \<open>Morphology: the pyramidal flag\<close>

lemma import_cell_pyramidal:
  assumes "pipettes (cell_ext_id cell) = Some um"
    and "import_cell ext pipettes morpho_results st cell = (st', None)"
  shows "\<exists>m. session_added st' = session_added st @ [m] \<and>
             pyramidal m = (if um = Some ''pyr'' then Some True else None)"
  using assms
  by (auto simp: import_cell_def Let_def split: option.splits sum.splits prod.splits if_splits)

lemma import_cell_printed:
  assumes "pipettes (cell_ext_id cell) = Some um"
  shows "printed (fst (import_cell ext pipettes morpho_results st cell)) =
           printed st @ (if um = None \<or> um = Some [] \<or> um = Some ''pyr'' then []
                         else [''Unknown morphology string: '' @ the um])"
  using assms
  by (auto simp: import_cell_def Let_def split: option.splits sum.splits prod.splits)

lemma import_cell_unrecognized:
  assumes "pipettes (cell_ext_id cell) = Some um"
    and "um \<noteq> Some ''pyr''" and "um' \<noteq> Some ''pyr''"
  shows "snd (import_cell ext (pipettes(cell_ext_id cell := Some um')) morpho_results st cell) =
           snd (import_cell ext pipettes morpho_results st cell) \<and>
         session_added (fst (import_cell ext (pipettes(cell_ext_id cell := Some um'))
           morpho_results st cell)) =
           session_added (fst (import_cell ext pipettes morpho_results st cell))"
  using assms
  by (auto simp: import_cell_def Let_def split: option.splits sum.splits prod.splits)

lemma import_example_cell_no_row:
  "import_cell ext (\<lambda>n. Some um) table_before empty_import (example_cell 1 None) =
     (\<lparr> printed = (if um = None \<or> um = Some [] \<or> um = Some ''pyr'' then []
                    else [''Unknown morphology string: '' @ the um]),
        session_added =
          [\<lparr> morph_cell_id = 1,
             pyramidal = (if um = Some ''pyr'' then Some True else None),
             cortical_layer = None, morpho_db_hash = None, annotations = [] \<rparr>],
        cells_updated = [example_cell 1 None] \<rparr>, None)"
  by (simp add: import_cell_def example_cell_def empty_import_def Let_def)

text \<open>
  C8, as stated, fails for an unrecognized string: the record is not flagged. The import
  raises nothing, and the Morphology record it adds for the string "stellate" is the record
  it adds when the string is missing; the only trace is a printed line.
\<close>

theorem unrecognized_morphology_counterexample:
  "snd (create_db_entries json_config
     ((example_externals (Inr table_before))
        \<lparr>pipette_metadata := \<lambda>path n. Some (Some ''stellate'')\<rparr>)
     (db_with_cells [example_cell 1 None]) 5) = None \<and>
   session_added (fst (create_db_entries json_config
     ((example_externals (Inr table_before))
        \<lparr>pipette_metadata := \<lambda>path n. Some (Some ''stellate'')\<rparr>)
     (db_with_cells [example_cell 1 None]) 5)) =
   session_added (fst (create_db_entries json_config
     ((example_externals (Inr table_before))\<lparr>pipette_metadata := \<lambda>path n. Some None\<rparr>)
     (db_with_cells [example_cell 1 None]) 5)) \<and>
   session_added (fst (create_db_entries json_config
     ((example_externals (Inr table_before))
        \<lparr>pipette_metadata := \<lambda>path n. Some (Some ''stellate'')\<rparr>)
     (db_with_cells [example_cell 1 None]) 5)) =
     [\<lparr> morph_cell_id = 1, pyramidal = None, cortical_layer = None,
        morpho_db_hash = None, annotations = [] \<rparr>]"
proof -
  have expt: "experiment_from_timestamp (db_with_cells cs) 5 = Inr (example_expt 5 cs)" for cs
    by (simp add: experiment_from_timestamp_def db_with_cells_def example_expt_def)
  have source: "morpho_db json_config ((example_externals (Inr table_before))
      \<lparr>pipette_metadata := p\<rparr>) = Inr table_before" for p
    by (simp add: morpho_db_def json_config_def example_externals_def)
  have run: "create_db_entries json_config
      ((example_externals (Inr table_before))\<lparr>pipette_metadata := \<lambda>path n. Some um\<rparr>)
      (db_with_cells [example_cell 1 None]) 5 =
      import_cell ((example_externals (Inr table_before))
          \<lparr>pipette_metadata := \<lambda>path n. Some um\<rparr>)
        (\<lambda>n. Some um) table_before empty_import (example_cell 1 None)" for um
    by (simp add: create_db_entries_def expt source example_expt_def split: prod.splits option.splits)
  show ?thesis
    unfolding run import_example_cell_no_row by simp
qed

text \<open>
  C8, amended. For every cell, the pyramidal flag of the created Morphology record is true
  when the experimenter-supplied morphology string is "pyr" and null otherwise: when it is
  \<open>None\<close> or empty, and also for any other string. For such an unrecognized string the
  line "Unknown morphology string: ..." is printed and the record is still created, not
  dropped: whether the import of the cell raises, and the record it adds, are the same as
  for a missing string.
\<close>

theorem pyramidal_flag:
  assumes "pipettes (cell_ext_id cell) = Some um"
  shows "(\<forall>st'. import_cell ext pipettes morpho_results st cell = (st', None) \<longrightarrow>
            (\<exists>m. session_added st' = session_added st @ [m] \<and>
                 pyramidal m = (if um = Some ''pyr'' then Some True else None))) \<and>
         printed (fst (import_cell ext pipettes morpho_results st cell)) =
           printed st @ (if um = None \<or> um = Some [] \<or> um = Some ''pyr'' then []
                         else [''Unknown morphology string: '' @ the um]) \<and>
         (\<forall>um'. um \<noteq> Some ''pyr'' \<and> um' \<noteq> Some ''pyr'' \<longrightarrow>
            snd (import_cell ext (pipettes(cell_ext_id cell := Some um')) morpho_results st cell) =
              snd (import_cell ext pipettes morpho_results st cell) \<and>
            session_added (fst (import_cell ext (pipettes(cell_ext_id cell := Some um'))
              morpho_results st cell)) =
              session_added (fst (import_cell ext pipettes morpho_results st cell)))"
proof -
  note a = import_cell_pyramidal [where pipettes = pipettes and cell = cell, OF assms]
  note b = import_cell_printed [where pipettes = pipettes and cell = cell, OF assms]
  note c = import_cell_unrecognized [where pipettes = pipettes and cell = cell, OF assms]
  from a b c show ?thesis by blast
qed

theorem pyramidal_flag_witness:
  "(\<exists>st' m. import_cell (example_externals (Inr table_before)) (\<lambda>n. Some (Some ''pyr''))
        table_before empty_import (example_cell 1 None) = (st', None) \<and>
      session_added st' = [m] \<and> pyramidal m = Some True) \<and>
   (\<exists>st' m. import_cell (example_externals (Inr table_before)) (\<lambda>n. Some (Some ''stellate''))
        table_before empty_import (example_cell 1 None) = (st', None) \<and>
      session_added st' = [m] \<and> pyramidal m = None \<and>
      printed st' = [''Unknown morphology string: stellate'']) \<and>
   (\<exists>st' m. import_cell (example_externals (Inr table_before)) (\<lambda>n. Some None)
        table_before empty_import (example_cell 1 None) = (st', None) \<and>
      session_added st' = [m] \<and> pyramidal m = None \<and> printed st' = []) \<and>
   session_added (fst (import_cell (example_externals (Inr table_before))
        ((\<lambda>n. Some (Some ''stellate''))(cell_ext_id (example_cell 1 None) := Some None))
        table_before empty_import (example_cell 1 None))) =
     session_added (fst (import_cell (example_externals (Inr table_before))
        (\<lambda>n. Some (Some ''stellate'')) table_before empty_import (example_cell 1 None)))"
proof -
  let ?E = "example_externals (Inr table_before)"
  have run: "\<exists>st'. import_cell ?E (\<lambda>n. Some um) table_before empty_import
      (example_cell 1 None) = (st', None)" for um
    unfolding import_example_cell_no_row by simp
  have one: "\<exists>st' m. import_cell ?E (\<lambda>n. Some um) table_before empty_import
        (example_cell 1 None) = (st', None) \<and>
      session_added st' = [m] \<and>
      pyramidal m = (if um = Some ''pyr'' then Some True else None) \<and>
      printed st' = (if um = None \<or> um = Some [] \<or> um = Some ''pyr'' then []
                     else [''Unknown morphology string: '' @ the um])" for um
  proof -
    from run obtain st' where st': "import_cell ?E (\<lambda>n. Some um) table_before empty_import
        (example_cell 1 None) = (st', None)"
      by blast
    note p = pyramidal_flag [of "\<lambda>n. Some um" "example_cell 1 None" um ?E table_before
        empty_import, OF refl]
    from p st' obtain m where m: "session_added st' = session_added empty_import @ [m]"
        "pyramidal m = (if um = Some ''pyr'' then Some True else None)"
      by blast
    from p st' have "printed st' = printed empty_import @
        (if um = None \<or> um = Some [] \<or> um = Some ''pyr'' then []
         else [''Unknown morphology string: '' @ the um])"
      by simp
    with st' m show ?thesis
      by (simp add: empty_import_def)
  qed
  have a: "\<exists>st' m. import_cell ?E (\<lambda>n. Some (Some ''pyr'')) table_before empty_import
        (example_cell 1 None) = (st', None) \<and>
      session_added st' = [m] \<and> pyramidal m = Some True"
    using one [of "Some ''pyr''"] by auto
  have b: "\<exists>st' m. import_cell ?E (\<lambda>n. Some (Some ''stellate'')) table_before empty_import
        (example_cell 1 None) = (st', None) \<and>
      session_added st' = [m] \<and> pyramidal m = None \<and>
      printed st' = [''Unknown morphology string: stellate'']"
    using one [of "Some ''stellate''"] by auto
  have c: "\<exists>st' m. import_cell ?E (\<lambda>n. Some None) table_before empty_import
        (example_cell 1 None) = (st', None) \<and>
      session_added st' = [m] \<and> pyramidal m = None \<and> printed st' = []"
    using one [of None] by auto
  have "Some ''stellate'' \<noteq> Some ''pyr'' \<and> (None :: string option) \<noteq> Some ''pyr''"
    by simp
  with pyramidal_flag [of "\<lambda>n. Some (Some ''stellate'')" "example_cell 1 None"
      "Some ''stellate''" ?E table_before empty_import, OF refl]
  have d: "session_added (fst (import_cell ?E
        ((\<lambda>n. Some (Some ''stellate''))(cell_ext_id (example_cell 1 None) := Some None))
        table_before empty_import (example_cell 1 None))) =
     session_added (fst (import_cell ?E
        (\<lambda>n. Some (Some ''stellate'')) table_before empty_import (example_cell 1 None)))"
    by blast
  from a b c d show ?thesis by blast
qed

end
